theory Spec2Isabelle
  imports Main
begin

section \<open>Python values and JSON documents\<close>

text \<open>
  \<^verbatim>\<open>gemini.py\<close> keeps its metadata as nested Python dictionaries that it reads from and
  writes to a JSON file. A JSON document is modelled by its syntax tree; an object is the list
  of its members in the order they are written, so a document may repeat a key (the text
  \<^verbatim>\<open>{"3": a, "3": b}\<close> is valid JSON). Numbers are integers: a document with a fractional
  number is outside the model.
\<close>

datatype json =
    JNull
  | JBool bool
  | JInt int
  | JStr string
  | JArr "json list"
  | JObj "(string \<times> json) list"

text \<open>
  In memory a dictionary can hold integer keys next to string keys: \<^verbatim>\<open>add_to_index\<close>
  stores the new record under the integer \<^verbatim>\<open>next_uuid\<close>, while the keys that
  \<^verbatim>\<open>json.load\<close> produced are strings. A dictionary is the list of its items in insertion
  order.
\<close>

datatype pykey = KInt int | KStr string

datatype pyval =
    PNone
  | PBool bool
  | PInt int
  | PStr string
  | PList "pyval list"
  | PDict "(pykey \<times> pyval) list"

datatype py_error =
    TypeError
  | KeyError
  | IndexError
  | AttributeError
  | FileNotFoundError
  | SameFileError
  | UnicodeDecodeError
  | ValueError string
  | APIError string
  | Unmodelled

text \<open>\<^verbatim>\<open>d[k] = v\<close> on a dictionary: an existing key keeps its position, a new key goes last.\<close>

fun dict_set :: "('k \<times> 'v) list \<Rightarrow> 'k \<Rightarrow> 'v \<Rightarrow> ('k \<times> 'v) list" where
  "dict_set [] k v = [(k, v)]"
| "dict_set ((k', v') # d) k v =
     (if k' = k then (k', v) # d else (k', v') # dict_set d k v)"

fun dict_get :: "('k \<times> 'v) list \<Rightarrow> 'k \<Rightarrow> 'v option" where
  "dict_get [] k = None"
| "dict_get ((k', v') # d) k = (if k' = k then Some v' else dict_get d k)"

text \<open>A dictionary built from a sequence of pairs: a repeated key keeps its last value.\<close>

definition dict_of_pairs :: "('k \<times> 'v) list \<Rightarrow> ('k \<times> 'v) list" where
  "dict_of_pairs ps = foldl (\<lambda>d kv. dict_set d (fst kv) (snd kv)) [] ps"

text \<open>\<^verbatim>\<open>json.load\<close> on a well-formed document.\<close>

fun loads :: "json \<Rightarrow> pyval" where
  "loads JNull = PNone"
| "loads (JBool b) = PBool b"
| "loads (JInt n) = PInt n"
| "loads (JStr s) = PStr s"
| "loads (JArr xs) = PList (map loads xs)"
| "loads (JObj kvs) =
     PDict (dict_of_pairs (map (\<lambda>kv. (KStr (fst kv), loads (snd kv))) kvs))"

text \<open>\<^verbatim>\<open>str(n)\<close> for an integer: its decimal digits.\<close>

fun str_nat :: "nat \<Rightarrow> string" where
  "str_nat n =
     (if n < 10 then [''0123456789'' ! n]
      else str_nat (n div 10) @ [''0123456789'' ! (n mod 10)])"

declare str_nat.simps [simp del]

definition str_int :: "int \<Rightarrow> string" where
  "str_int i = (if i < 0 then CHR ''-'' # str_nat (nat (- i)) else str_nat (nat i))"

text \<open>
  \<^verbatim>\<open>json.dump\<close> writes every key as a string (an integer key as its decimal digits) and
  does not look for keys that then coincide.
\<close>

fun key_str :: "pykey \<Rightarrow> string" where
  "key_str (KStr s) = s"
| "key_str (KInt n) = str_int n"

fun dumps :: "pyval \<Rightarrow> json" where
  "dumps PNone = JNull"
| "dumps (PBool b) = JBool b"
| "dumps (PInt n) = JInt n"
| "dumps (PStr s) = JStr s"
| "dumps (PList xs) = JArr (map dumps xs)"
| "dumps (PDict kvs) = JObj (map (\<lambda>kv. (key_str (fst kv), dumps (snd kv))) kvs)"

subsection \<open>The operators the program applies to these values\<close>

text \<open>Truth value of an object, as \<^verbatim>\<open>if x:\<close> and \<^verbatim>\<open>not x\<close> take it.\<close>

fun truthy :: "pyval \<Rightarrow> bool" where
  "truthy PNone = False"
| "truthy (PBool b) = b"
| "truthy (PInt n) = (n \<noteq> 0)"
| "truthy (PStr s) = (s \<noteq> [])"
| "truthy (PList xs) = (xs \<noteq> [])"
| "truthy (PDict d) = (d \<noteq> [])"

fun py_len :: "pyval \<Rightarrow> py_error + nat" where
  "py_len (PStr s) = Inr (length s)"
| "py_len (PList xs) = Inr (length xs)"
| "py_len (PDict d) = Inr (length d)"
| "py_len _ = Inl TypeError"

text \<open>\<^verbatim>\<open>x[s]\<close> with a string \<^verbatim>\<open>s\<close>: only a dictionary can be subscripted by a string.\<close>

fun getitem_str :: "pyval \<Rightarrow> string \<Rightarrow> py_error + pyval" where
  "getitem_str (PDict d) s = (case dict_get d (KStr s) of None \<Rightarrow> Inl KeyError | Some v \<Rightarrow> Inr v)"
| "getitem_str _ s = Inl TypeError"

text \<open>\<^verbatim>\<open>x[s] = v\<close> with a string \<^verbatim>\<open>s\<close>.\<close>

fun setitem_str :: "pyval \<Rightarrow> string \<Rightarrow> pyval \<Rightarrow> py_error + pyval" where
  "setitem_str (PDict d) s v = Inr (PDict (dict_set d (KStr s) v))"
| "setitem_str _ s v = Inl TypeError"

text \<open>
  \<^verbatim>\<open>x[i] = v\<close> with an integer \<^verbatim>\<open>i\<close>: a dictionary takes it as a key, a list as a
  position (from the end when negative), a string cannot be assigned to.
\<close>

fun setitem_int :: "pyval \<Rightarrow> int \<Rightarrow> pyval \<Rightarrow> py_error + pyval" where
  "setitem_int (PDict d) i v = Inr (PDict (dict_set d (KInt i) v))"
| "setitem_int (PList xs) i v =
     (let n = int (length xs); j = (if i < 0 then n + i else i)
      in if 0 \<le> j \<and> j < n then Inr (PList (xs[nat j := v])) else Inl IndexError)"
| "setitem_int _ i v = Inl TypeError"

text \<open>Substring test, \<^verbatim>\<open>s in t\<close> for two strings.\<close>

fun starts_with :: "string \<Rightarrow> string \<Rightarrow> bool" where
  "starts_with [] t = True"
| "starts_with (c # s) [] = False"
| "starts_with (c # s) (d # t) = (c = d \<and> starts_with s t)"

fun substring :: "string \<Rightarrow> string \<Rightarrow> bool" where
  "substring s [] = (s = [])"
| "substring s (d # t) = (starts_with s (d # t) \<or> substring s t)"

text \<open>
  \<^verbatim>\<open>s in x\<close> for a string \<^verbatim>\<open>s\<close>: a key of a dictionary, an element of a list, a substring
  of a string; anything else is not iterable.
\<close>

fun contains_str :: "pyval \<Rightarrow> string \<Rightarrow> py_error + bool" where
  "contains_str (PDict d) s = Inr (KStr s \<in> set (map fst d))"
| "contains_str (PList xs) s = Inr (PStr s \<in> set xs)"
| "contains_str (PStr t) s = Inr (substring s t)"
| "contains_str _ s = Inl TypeError"

text \<open>
  \<^verbatim>\<open>str.strip()\<close>. A character is a code point below 256; those that Python counts as
  white space are 9 to 13, 28 to 32, 133 and 160.
\<close>

definition is_space :: "char \<Rightarrow> bool" where
  "is_space c = (let n = of_char c :: nat
                 in (9 \<le> n \<and> n \<le> 13) \<or> (28 \<le> n \<and> n \<le> 32) \<or> n = 133 \<or> n = 160)"

definition strip :: "string \<Rightarrow> string" where
  "strip s = rev (dropWhile is_space (rev (dropWhile is_space s)))"

text \<open>\<^verbatim>\<open>sep.join(xs)\<close>.\<close>

fun join :: "string \<Rightarrow> string list \<Rightarrow> string" where
  "join sep [] = []"
| "join sep [x] = x"
| "join sep (x # y # xs) = x @ sep @ join sep (y # xs)"

subsection \<open>Paths\<close>

text \<open>
  A path is the string \<^verbatim>\<open>str(Path(p))\<close>, its parts separated by single slashes.
  \<^verbatim>\<open>Path.name\<close> is the last part, \<^verbatim>\<open>Path.stem\<close> the name without its last suffix
  (a dot at the start or at the end of the name starts no suffix), \<^verbatim>\<open>d / name\<close> joins.
\<close>

definition path_name :: "string \<Rightarrow> string" where
  "path_name p = rev (takeWhile (\<lambda>c. c \<noteq> CHR ''/'') (rev p))"

definition path_stem :: "string \<Rightarrow> string" where
  "path_stem p =
     (let name = path_name p;
          after = length (takeWhile (\<lambda>c. c \<noteq> CHR ''.'') (rev name))
      in if CHR ''.'' \<in> set name \<and> 0 < after \<and> Suc after < length name
         then take (length name - Suc after) name else name)"

definition path_join :: "string \<Rightarrow> string \<Rightarrow> string" where
  "path_join d name = d @ ''/'' @ name"

section \<open>The world the program runs in\<close>

text \<open>
  Everything outside the program is a field of the state. The file system maps the path of a
  regular file to what reading it gives: \<^verbatim>\<open>json.load\<close> on a file opened in text
  mode decodes the bytes (bytes that are not valid in the encoding raise
  \<^verbatim>\<open>UnicodeDecodeError\<close>), then parses the text (a text that is not JSON raises
  \<^verbatim>\<open>JSONDecodeError\<close>). A media file is \<open>Undecodable\<close>. Directories are not modelled:
  \<^verbatim>\<open>lectures\<close> and \<^verbatim>\<open>lectures/Archive\<close> are taken to be directories once
  \<^verbatim>\<open>os.makedirs\<close> has run, and every other path names a regular file or nothing.
\<close>

datatype content = Undecodable | NotJson | JsonDoc json

text \<open>
  The generative service. One attempt either raises or returns; what it returns is
  \<^verbatim>\<open>None\<close> (the case \<^verbatim>\<open>not response\<close>), or an object without a
  \<^verbatim>\<open>text\<close> attribute, or an object whose text is a string or \<^verbatim>\<open>None\<close>.
\<close>

datatype response = NoResponse | NoTextAttr | WithText "string option"

datatype attempt = Raises string | Returns response

datatype part = Prompt string | FileRef string

text \<open>The encoder process: its exit status, or why it could not be run.\<close>

datatype run_outcome = Exit int | ExecNotFound | RunFailure

text \<open>What the program does to the outside, in order.\<close>

datatype event =
    Generate string "part list"
  | GenerateJSON string string pyval
  | Upload string
  | Sleep nat
  | Run "string list"

text \<open>What the program prints, one constructor for each \<^verbatim>\<open>print\<close> of the source.\<close>

datatype message =
    CouldNotDecodeJSON string
  | EmptyTextWarning
  | ModelJSONError
  | RawResponse
  | UnexpectedError
  | EmptyResponseWarning
  | ApiCallError nat nat string
  | Retrying nat
  | MaxRetriesReached
  | ExtractingAudioTo string
  | ConvertingAudioTo string
  | FfmpegNotFound
  | RunningFfmpeg "string list"
  | FfmpegErrorsHeader
  | FfmpegStderr
  | FfmpegReturnCode int
  | FfmpegCommand
  | FfmpegStdout
  | UnexpectedExtractionError
  | IndexingFile "string list"
  | UploadingFiles "string list"
  | FileMissing string
  | UploadingFile string
  | TheTime
  | FilesUploaded
  | IndexingFailed
  | NoLecturesAdded
  | Step1
  | RelevanceCheckError
  | NoneRelevant
  | Step2
  | QueryingFiles
  | Step3
  | NoValidAnswers
  | Banner
  | FinalAnswerHeader
  | FinalAnswer string
  | SynthesisFailed "string option"
  | IndividualAnswersUsed
  | Context string
  | NoFilesToAdd
  | SummaryIs string
  | SummaryNotGenerated

text \<open>
  The scripts say what the outside answers: the \<open>n\<close>-th request to the generative service,
  the \<open>n\<close>-th upload (\<open>None\<close> when it succeeds, the error's message when it raises) and the
  \<open>n\<close>-th run of the encoder. \<open>client_error\<close> is the message of the error that
  \<^verbatim>\<open>genai.Client()\<close> raises, \<open>None\<close> when the client can be built. \<open>json_loads\<close> is
  \<^verbatim>\<open>json.loads\<close> on the text of a response, \<open>None\<close> for \<^verbatim>\<open>JSONDecodeError\<close>.
\<close>

record world =
  files :: "string \<Rightarrow> content option"
  ffmpeg_installed :: bool
  ffmpeg_script :: "nat \<Rightarrow> run_outcome"
  client_error :: "string option"
  gen_script :: "nat \<Rightarrow> attempt"
  upload_script :: "nat \<Rightarrow> string option"
  json_loads :: "string \<Rightarrow> json option"
  effects :: "event list"
  stdout :: "message list"

definition say :: "message \<Rightarrow> world \<Rightarrow> world" where
  "say m w = w\<lparr>stdout := stdout w @ [m]\<rparr>"

definition emit :: "event \<Rightarrow> world \<Rightarrow> world" where
  "emit e w = w\<lparr>effects := effects w @ [e]\<rparr>"

fun is_generate :: "event \<Rightarrow> bool" where
  "is_generate (Generate m ps) = True"
| "is_generate (GenerateJSON m q d) = True"
| "is_generate _ = False"

fun is_upload :: "event \<Rightarrow> bool" where
  "is_upload (Upload p) = True"
| "is_upload _ = False"

fun is_run :: "event \<Rightarrow> bool" where
  "is_run (Run c) = True"
| "is_run _ = False"

fun is_sleep :: "event \<Rightarrow> bool" where
  "is_sleep (Sleep n) = True"
| "is_sleep _ = False"

definition api_calls :: "world \<Rightarrow> nat" where
  "api_calls w = length (filter is_generate (effects w))"

definition upload_calls :: "world \<Rightarrow> nat" where
  "upload_calls w = length (filter is_upload (effects w))"

definition ffmpeg_runs :: "world \<Rightarrow> nat" where
  "ffmpeg_runs w = length (filter is_run (effects w))"

definition sleeps :: "world \<Rightarrow> nat" where
  "sleeps w = length (filter is_sleep (effects w))"

definition path_exists :: "world \<Rightarrow> string \<Rightarrow> bool" where
  "path_exists w p = (files w p \<noteq> None)"

section \<open>Configuration\<close>

definition CONFIG_FILE :: string where "CONFIG_FILE = ''lecture_data.json''"
definition VIDEO_BASE_DIR :: string where "VIDEO_BASE_DIR = ''lectures''"
definition API_RETRY_DELAY :: nat where "API_RETRY_DELAY = 5"
definition MAX_API_RETRIES :: nat where "MAX_API_RETRIES = 3"
definition GEMINI_MODEL_NAME :: string where
  "GEMINI_MODEL_NAME = ''models/gemini-2.5-flash-preview-04-17''"
definition GEMINI_TEXT_MODEL_NAME :: string where
  "GEMINI_TEXT_MODEL_NAME = ''models/gemini-2.5-flash-preview-04-17''"
definition FFMPEG_PATH :: string where "FFMPEG_PATH = ''ffmpeg''"
definition FILE_TYPES :: "string list" where
  "FILE_TYPES = [''Video'', ''Audio'', ''Image'', ''Text'', ''PDF'']"

section \<open>The metadata store\<close>

definition empty_store :: pyval where
  "empty_store = PDict [(KStr ''UUID'', PDict [])]"

text \<open>
  \<^verbatim>\<open>load_metadata\<close>. Only \<^verbatim>\<open>json.JSONDecodeError\<close> is caught; the decoding error of a
  file that is not text, and the errors of \<^verbatim>\<open>"UUID" not in data\<close> and of
  \<^verbatim>\<open>data["UUID"] = {}\<close> on a document that is not an object, leave the function.
\<close>

definition load_metadata :: "string \<Rightarrow> world \<Rightarrow> (py_error + pyval) \<times> world" where
  "load_metadata filename w =
     (case files w filename of
        None \<Rightarrow> (Inr empty_store, w)
      | Some Undecodable \<Rightarrow> (Inl UnicodeDecodeError, w)
      | Some NotJson \<Rightarrow> (Inr empty_store, say (CouldNotDecodeJSON filename) w)
      | Some (JsonDoc j) \<Rightarrow>
          (let data = loads j
           in case contains_str data ''UUID'' of
                Inl e \<Rightarrow> (Inl e, w)
              | Inr True \<Rightarrow> (Inr data, w)
              | Inr False \<Rightarrow>
                  (case setitem_str data ''UUID'' (PDict []) of
                     Inl e \<Rightarrow> (Inl e, w)
                   | Inr data' \<Rightarrow> (Inr data', w))))"

text \<open>\<^verbatim>\<open>save_metadata\<close>: the file is rewritten whole.\<close>

definition save_metadata :: "pyval \<Rightarrow> string \<Rightarrow> world \<Rightarrow> world" where
  "save_metadata data filename w = w\<lparr>files := (files w)(filename \<mapsto> JsonDoc (dumps data))\<rparr>"

text \<open>
  The identifier of the next record, \<^verbatim>\<open>len(metadata["UUID"]) + 1\<close>, as
  \<^verbatim>\<open>add_to_index\<close> and \<^verbatim>\<open>extract_from_video\<close> compute it.
\<close>

definition next_uuid_of :: "pyval \<Rightarrow> py_error + int" where
  "next_uuid_of metadata =
     (case getitem_str metadata ''UUID'' of
        Inl e \<Rightarrow> Inl e
      | Inr table \<Rightarrow> (case py_len table of Inl e \<Rightarrow> Inl e | Inr n \<Rightarrow> Inr (int n + 1)))"

text \<open>\<^verbatim>\<open>metadata["UUID"][next_uuid] = data\<close>: the table inside \<^verbatim>\<open>metadata\<close> is updated.\<close>

definition put_record :: "pyval \<Rightarrow> int \<Rightarrow> pyval \<Rightarrow> py_error + pyval" where
  "put_record metadata next_uuid data =
     (case getitem_str metadata ''UUID'' of
        Inl e \<Rightarrow> Inl e
      | Inr table \<Rightarrow>
          (case setitem_int table next_uuid data of
             Inl e \<Rightarrow> Inl e
           | Inr table' \<Rightarrow> setitem_str metadata ''UUID'' table'))"

section \<open>The generative service\<close>

text \<open>
  \<^verbatim>\<open>genai.Client()\<close> followed by \<^verbatim>\<open>client.models.generate_content\<close>: the request is
  sent when the client could be built, and the script gives its outcome.
\<close>

definition generate_content :: "string \<Rightarrow> part list \<Rightarrow> world \<Rightarrow> attempt \<times> world" where
  "generate_content model contents w =
     (case client_error w of
        Some m \<Rightarrow> (Raises m, w)
      | None \<Rightarrow> (gen_script w (api_calls w), emit (Generate model contents) w))"

definition no_text_attribute :: string where
  "no_text_attribute =
     ''Response does not have '' @ [CHR 0x27] @ ''text'' @ [CHR 0x27] @ '' attribute.''"

text \<open>
  The body of the \<^verbatim>\<open>try\<close> in \<^verbatim>\<open>safe_generate_content\<close>: \<open>Inr\<close> what it returns,
  \<open>Inl\<close> the message of the exception that reaches \<^verbatim>\<open>except Exception\<close>.
\<close>

definition try_generate :: "string \<Rightarrow> part list \<Rightarrow> world \<Rightarrow> (string + string option) \<times> world" where
  "try_generate model prompt w =
     (case generate_content model prompt w of
        (Raises m, w1) \<Rightarrow> (Inl m, w1)
      | (Returns NoResponse, w1) \<Rightarrow> (Inr None, say EmptyResponseWarning w1)
      | (Returns NoTextAttr, w1) \<Rightarrow> (Inl no_text_attribute, w1)
      | (Returns (WithText t), w1) \<Rightarrow> (Inr t, w1))"

definition api_failure :: "nat \<Rightarrow> string \<Rightarrow> string" where
  "api_failure retries error_details =
     ''Error: API call failed after '' @ str_int (int retries) @ '' retries: '' @ error_details"

text \<open>
  \<^verbatim>\<open>safe_generate_content\<close>: the loop \<^verbatim>\<open>for attempt in range(retries)\<close>, entered at
  \<open>attempt\<close>. No exception leaves it; the \<^verbatim>\<open>return None\<close> after the loop is reached when
  \<open>retries\<close> is 0.
\<close>

function safe_generate_from ::
  "string \<Rightarrow> part list \<Rightarrow> nat \<Rightarrow> nat \<Rightarrow> world \<Rightarrow> string option \<times> world" where
  "safe_generate_from model prompt retries attempt w =
     (if attempt < retries then
        (case try_generate model prompt w of
           (Inr result, w1) \<Rightarrow> (result, w1)
         | (Inl e, w1) \<Rightarrow>
             (let w2 = say (ApiCallError (attempt + 1) retries e) w1
              in if attempt + 1 < retries
                 then safe_generate_from model prompt retries (attempt + 1)
                        (emit (Sleep API_RETRY_DELAY) (say (Retrying API_RETRY_DELAY) w2))
                 else (Some (api_failure retries e), say MaxRetriesReached w2)))
      else (None, w))"
  by pat_completeness auto
termination
  by (relation "measure (\<lambda>(model, prompt, retries, attempt, w). retries - attempt)") auto

declare safe_generate_from.simps [simp del]

definition safe_generate_content ::
  "string \<Rightarrow> part list \<Rightarrow> nat \<Rightarrow> world \<Rightarrow> string option \<times> world" where
  "safe_generate_content model prompt retries w = safe_generate_from model prompt retries 0 w"

text \<open>
  \<^verbatim>\<open>get_structured_uuids_response\<close>: one request, no retry. Reading \<^verbatim>\<open>response.text\<close>
  of a response that is \<^verbatim>\<open>None\<close> or has no such attribute raises
  \<^verbatim>\<open>AttributeError\<close>, which \<^verbatim>\<open>except Exception\<close> catches. The result is the parsed
  document, \<open>PNone\<close> on every failure.
\<close>

definition get_structured_uuids_response ::
  "string \<Rightarrow> pyval \<Rightarrow> string \<Rightarrow> world \<Rightarrow> pyval \<times> world" where
  "get_structured_uuids_response user_input_text data model w =
     (case client_error w of
        Some m \<Rightarrow> (PNone, say UnexpectedError w)
      | None \<Rightarrow>
          (let w1 = emit (GenerateJSON model user_input_text data) w
           in case gen_script w (api_calls w) of
                Raises m \<Rightarrow> (PNone, say UnexpectedError w1)
              | Returns NoResponse \<Rightarrow> (PNone, say UnexpectedError w1)
              | Returns NoTextAttr \<Rightarrow> (PNone, say UnexpectedError w1)
              | Returns (WithText None) \<Rightarrow> (PNone, say EmptyTextWarning w1)
              | Returns (WithText (Some t)) \<Rightarrow>
                  (if t = [] then (PNone, say EmptyTextWarning w1)
                   else (case json_loads w t of
                           None \<Rightarrow> (PNone, say RawResponse (say ModelJSONError w1))
                         | Some j \<Rightarrow> (loads j, w1)))))"

text \<open>
  \<^verbatim>\<open>client.files.upload(file=file)\<close>: a path that is not a file raises
  \<^verbatim>\<open>FileNotFoundError\<close> before anything is sent; otherwise the script says whether the
  upload succeeds. The handle of an uploaded file is written \<open>FileRef\<close> of its path.
\<close>

definition files_upload :: "string \<Rightarrow> world \<Rightarrow> (py_error + part) \<times> world" where
  "files_upload file w =
     (if \<not> path_exists w file then (Inl FileNotFoundError, w)
      else (case upload_script w (upload_calls w) of
              Some m \<Rightarrow> (Inl (APIError m), emit (Upload file) w)
            | None \<Rightarrow> (Inr (FileRef file), emit (Upload file) w)))"

section \<open>The encoder\<close>

text \<open>
  \<^verbatim>\<open>subprocess.run(command, check=True)\<close>. The output file is the last argument of the
  command; a run that exits with status 0 has written it.
\<close>

definition subprocess_run :: "string list \<Rightarrow> world \<Rightarrow> run_outcome \<times> world" where
  "subprocess_run command w =
     (let outcome = ffmpeg_script w (ffmpeg_runs w);
          w1 = emit (Run command) w
      in (outcome,
          if outcome = Exit 0 then w1\<lparr>files := (files w1)(last command \<mapsto> Undecodable)\<rparr>
          else w1))"

text \<open>The three \<^verbatim>\<open>except\<close> clauses of the extractors; each prints and returns \<^verbatim>\<open>None\<close>.\<close>

fun ffmpeg_failed :: "run_outcome \<Rightarrow> world \<Rightarrow> world" where
  "ffmpeg_failed (Exit c) w =
     say FfmpegStdout (say FfmpegStderr (say FfmpegCommand (say (FfmpegReturnCode c) w)))"
| "ffmpeg_failed ExecNotFound w = say FfmpegNotFound w"
| "ffmpeg_failed RunFailure w = say UnexpectedExtractionError w"

definition video_audio_command :: "string \<Rightarrow> string \<Rightarrow> string list" where
  "video_audio_command video_path audio_output_path =
     [FFMPEG_PATH, ''-i'', video_path, ''-vn'', ''-c:a'', ''libopus'', ''-b:a'', ''64k'', ''-y'',
      audio_output_path]"

definition video_frames_command :: "string \<Rightarrow> string \<Rightarrow> string list" where
  "video_frames_command video_path video_output_path =
     [FFMPEG_PATH, ''-i'', video_path, ''-vf'', ''fps=1,scale=-1:720,setpts=PTS/30'', ''-r'', ''30'',
      ''-an'', ''-y'', video_output_path]"

definition audio_command :: "string \<Rightarrow> string \<Rightarrow> string list" where
  "audio_command audio_path audio_output_path =
     [FFMPEG_PATH, ''-i'', audio_path, ''-c:a'', ''libopus'', ''-b:a'', ''192k'', ''-y'',
      audio_output_path]"

text \<open>\<^verbatim>\<open>extract_from_video\<close>: \<open>Inr None\<close> is its \<^verbatim>\<open>return None\<close>.\<close>

definition extract_from_video ::
  "string \<Rightarrow> string \<Rightarrow> world \<Rightarrow> (py_error + string list option) \<times> world" where
  "extract_from_video video_path output_dir w =
     (case load_metadata CONFIG_FILE w of
        (Inl e, w1) \<Rightarrow> (Inl e, w1)
      | (Inr metadata, w1) \<Rightarrow>
          (case next_uuid_of metadata of
             Inl e \<Rightarrow> (Inl e, w1)
           | Inr n \<Rightarrow>
               (let no = str_int n;
                    audio_output_path =
                      path_join output_dir (no @ ''.'' @ path_stem video_path @ ''.opus'');
                    video_output_path =
                      path_join output_dir (no @ ''.'' @ path_stem video_path @ ''.mp4'');
                    command = video_audio_command video_path audio_output_path;
                    command1 = video_frames_command video_path video_output_path;
                    w2 = say (ExtractingAudioTo audio_output_path) w1
                in if \<not> ffmpeg_installed w2 then (Inr None, say FfmpegNotFound w2)
                   else (case subprocess_run command (say (RunningFfmpeg command) w2) of
                           (result, w3) \<Rightarrow>
                             if result \<noteq> Exit 0 then (Inr None, ffmpeg_failed result w3)
                             else (case subprocess_run command1 w3 of
                                     (result1, w4) \<Rightarrow>
                                       if result1 \<noteq> Exit 0
                                       then (Inr None, ffmpeg_failed result1 w4)
                                       else (Inr (Some [video_output_path, audio_output_path]),
                                             say FfmpegStderr (say FfmpegStderr
                                               (say FfmpegErrorsHeader w4))))))))"

text \<open>
  \<^verbatim>\<open>extract_from_audio\<close>. With \<^verbatim>\<open>capture_output=False\<close> the result carries no
  \<^verbatim>\<open>stderr\<close>, so the message of line 319 is never printed.
\<close>

definition extract_from_audio ::
  "string \<Rightarrow> string \<Rightarrow> world \<Rightarrow> (py_error + string list option) \<times> world" where
  "extract_from_audio audio_path output_dir w =
     (let audio_output_path = path_join output_dir (path_stem audio_path @ ''.opus'');
          command = audio_command audio_path audio_output_path;
          w1 = say (ConvertingAudioTo audio_output_path) w
      in if \<not> ffmpeg_installed w1 then (Inr None, say FfmpegNotFound w1)
         else (case subprocess_run command (say (RunningFfmpeg command) w1) of
                 (result, w2) \<Rightarrow>
                   if result \<noteq> Exit 0 then (Inr None, ffmpeg_failed result w2)
                   else (Inr (Some [audio_output_path]), w2)))"

text \<open>
  \<^verbatim>\<open>shutil.copy(src, dst)\<close> into the directory \<open>dst\<close>: the copy takes the name of the
  source, and its path is returned.
\<close>

definition shutil_copy :: "string \<Rightarrow> string \<Rightarrow> world \<Rightarrow> (py_error + string) \<times> world" where
  "shutil_copy src dst w =
     (let target = path_join dst (path_name src)
      in case files w src of
           None \<Rightarrow> (Inl FileNotFoundError, w)
         | Some c \<Rightarrow>
             if target = src then (Inl SameFileError, w)
             else (Inr target, w\<lparr>files := (files w)(target \<mapsto> c)\<rparr>))"

section \<open>Indexing\<close>

text \<open>
  The loop of lines 347 to 352 of \<^verbatim>\<open>index_content\<close>: a file that does not exist is
  reported, and \<^verbatim>\<open>temp_list.append(file)\<close> runs for every file.
\<close>

fun checked_files :: "string list \<Rightarrow> world \<Rightarrow> string list \<times> world" where
  "checked_files [] w = ([], w)"
| "checked_files (file # rest) w =
     (case checked_files rest (if \<not> path_exists w file then say (FileMissing file) w else w) of
        (temp_list, w1) \<Rightarrow> (file # temp_list, w1))"

text \<open>The loop of lines 355 to 359: the first upload that raises ends it.\<close>

fun upload_each :: "string list \<Rightarrow> world \<Rightarrow> (py_error + part list) \<times> world" where
  "upload_each [] w = (Inr [], w)"
| "upload_each (file # rest) w =
     (case files_upload file (say (UploadingFile file) w) of
        (Inl e, w1) \<Rightarrow> (Inl e, w1)
      | (Inr uploaded_file, w1) \<Rightarrow>
          (case upload_each rest (say TheTime w1) of
             (Inl e, w2) \<Rightarrow> (Inl e, w2)
           | (Inr uploaded_files, w2) \<Rightarrow> (Inr (uploaded_file # uploaded_files), w2)))"

definition index_prompt :: string where
  "index_prompt =
     ''Analyze this lecture and provide a concise summary '' @
     ''including the main topics discussed, key concepts, definitions, '' @
     ''and any specific examples mentioned. Format the output clearly.''"

text \<open>\<^verbatim>\<open>index_content\<close>: \<open>Inr None\<close> is its \<^verbatim>\<open>return None\<close>.\<close>

definition index_content :: "string list \<Rightarrow> world \<Rightarrow> (py_error + string option) \<times> world" where
  "index_content path w =
     (case client_error w of
        Some m \<Rightarrow> (Inl (ValueError m), w)
      | None \<Rightarrow>
          (case checked_files path (say (UploadingFiles path) (say (IndexingFile path) w)) of
             (temp_list, w1) \<Rightarrow>
               (case upload_each temp_list w1 of
                  (Inl e, w2) \<Rightarrow> (Inl e, w2)
                | (Inr uploaded_files, w2) \<Rightarrow>
                    (case safe_generate_content GEMINI_MODEL_NAME
                            (Prompt index_prompt # uploaded_files) MAX_API_RETRIES
                            (say FilesUploaded w2) of
                       (response_text, w3) \<Rightarrow>
                         if response_text \<noteq> None \<and> response_text \<noteq> Some []
                         then (Inr response_text, w3)
                         else (Inr None, say IndexingFailed w3)))))"

text \<open>The loops of lines 628 to 631 and 650 to 653 of \<^verbatim>\<open>add_to_index\<close>: they only print.\<close>

fun warn_missing :: "string list \<Rightarrow> world \<Rightarrow> world" where
  "warn_missing [] w = w"
| "warn_missing (i # rest) w =
     warn_missing rest (if \<not> path_exists w i then say (FileMissing i) w else w)"

text \<open>
  Lines 635 to 648: the branch for the type of the file, applied to \<^verbatim>\<open>file_paths[0]\<close>.
  The result is \<^verbatim>\<open>paths\<close> (\<open>None\<close> when the extractor returned \<^verbatim>\<open>None\<close>) and
  \<^verbatim>\<open>archive\<close>. A type that is none of the five leaves \<^verbatim>\<open>paths = []\<close>.
\<close>

definition normalize_first ::
  "string \<Rightarrow> string \<Rightarrow> world \<Rightarrow> (py_error + string list option \<times> string option) \<times> world" where
  "normalize_first first file_type w =
     (if file_type = FILE_TYPES ! 0 then
        (case extract_from_video first VIDEO_BASE_DIR w of
           (Inl e, w1) \<Rightarrow> (Inl e, w1)
         | (Inr paths, w1) \<Rightarrow>
             (case shutil_copy first (path_join VIDEO_BASE_DIR ''Archive'') w1 of
                (Inl e, w2) \<Rightarrow> (Inl e, w2)
              | (Inr archive, w2) \<Rightarrow> (Inr (paths, Some archive), w2)))
      else if file_type = FILE_TYPES ! 1 then
        (case extract_from_audio first VIDEO_BASE_DIR w of
           (Inl e, w1) \<Rightarrow> (Inl e, w1)
         | (Inr paths, w1) \<Rightarrow>
             (case shutil_copy first (path_join VIDEO_BASE_DIR ''Archive'') w1 of
                (Inl e, w2) \<Rightarrow> (Inl e, w2)
              | (Inr archive, w2) \<Rightarrow> (Inr (paths, Some archive), w2)))
      else if file_type = FILE_TYPES ! 2 then
        (case shutil_copy first VIDEO_BASE_DIR w of
           (Inl e, w1) \<Rightarrow> (Inl e, w1)
         | (Inr copied, w1) \<Rightarrow> (Inr (Some [copied], None), w1))
      else if file_type = FILE_TYPES ! 3 then
        (case shutil_copy first VIDEO_BASE_DIR w of
           (Inl e, w1) \<Rightarrow> (Inl e, w1)
         | (Inr copied, w1) \<Rightarrow> (Inr (Some [copied], None), w1))
      else if file_type = FILE_TYPES ! 4 then
        (case shutil_copy first VIDEO_BASE_DIR w of
           (Inl e, w1) \<Rightarrow> (Inl e, w1)
         | (Inr copied, w1) \<Rightarrow> (Inr (Some [copied], None), w1))
      else (Inr (Some [], None), w))"

text \<open>The record of lines 655 to 663.\<close>

definition new_record :: "string list \<Rightarrow> string \<Rightarrow> string \<Rightarrow> string option \<Rightarrow> (pykey \<times> pyval) list" where
  "new_record paths filename file_type archive =
     (let data = [(KStr ''Path'', PList (map PStr paths)),
                  (KStr ''Filename'', PStr filename),
                  (KStr ''Type'', PStr file_type),
                  (KStr ''Archive'', PStr []),
                  (KStr ''index_summary'', PStr [])]
      in case archive of
           None \<Rightarrow> data
         | Some a \<Rightarrow> if a \<noteq> [] then dict_set data (KStr ''Archive'') (PStr a) else data)"

text \<open>Lines 664 to 670: the summary, or the text that marks its failure.\<close>

definition with_summary :: "(pykey \<times> pyval) list \<Rightarrow> string option \<Rightarrow> world \<Rightarrow> (pykey \<times> pyval) list \<times> world" where
  "with_summary data summary w =
     (case summary of
        Some s \<Rightarrow>
          if s \<noteq> [] then (dict_set data (KStr ''index_summary'') (PStr s), say (SummaryIs s) w)
          else (dict_set data (KStr ''index_summary'') (PStr ''Error: Summary not generated.''),
                say SummaryNotGenerated w)
      | None \<Rightarrow>
          (dict_set data (KStr ''index_summary'') (PStr ''Error: Summary not generated.''),
           say SummaryNotGenerated w))"

text \<open>
  \<^verbatim>\<open>add_to_index\<close>. \<^verbatim>\<open>paths.copy()\<close> on \<^verbatim>\<open>None\<close> raises
  \<^verbatim>\<open>AttributeError\<close>, \<^verbatim>\<open>file_paths[0]\<close> on an empty list \<^verbatim>\<open>IndexError\<close>.
\<close>

definition add_to_index :: "string list \<Rightarrow> string \<Rightarrow> world \<Rightarrow> (py_error + unit) \<times> world" where
  "add_to_index file_paths file_type w =
     (case file_paths of
        [] \<Rightarrow> (Inr (), say NoFilesToAdd w)
      | first # others \<Rightarrow>
          (case load_metadata CONFIG_FILE w of
             (Inl e, w1) \<Rightarrow> (Inl e, w1)
           | (Inr metadata, w1) \<Rightarrow>
               (case next_uuid_of metadata of
                  Inl e \<Rightarrow> (Inl e, w1)
                | Inr next_uuid \<Rightarrow>
                    (case normalize_first first file_type (warn_missing file_paths w1) of
                       (Inl e, w2) \<Rightarrow> (Inl e, w2)
                     | (Inr (None, archive), w2) \<Rightarrow> (Inl AttributeError, w2)
                     | (Inr (Some paths, archive), w2) \<Rightarrow>
                         (let w3 = warn_missing paths w2
                          in case paths of
                               [] \<Rightarrow> (Inl IndexError, w3)
                             | p0 # ps \<Rightarrow>
                                 (let data = new_record (filter (path_exists w3) paths)
                                               (path_name p0) file_type archive
                                  in case index_content paths w3 of
                                       (Inl e, w4) \<Rightarrow> (Inl e, w4)
                                     | (Inr summary, w4) \<Rightarrow>
                                         (case with_summary data summary w4 of
                                            (data', w5) \<Rightarrow>
                                              (case put_record metadata next_uuid (PDict data') of
                                                 Inl e \<Rightarrow> (Inl e, w5)
                                               | Inr metadata' \<Rightarrow>
                                                   (Inr (),
                                                    save_metadata metadata' CONFIG_FILE w5)))))))))"

section \<open>Querying\<close>

definition nl :: string where "nl = [CHR 0x0A]"
definition dquote :: string where "dquote = [CHR 0x22]"
definition squote :: string where "squote = [CHR 0x27]"

text \<open>
  Lines 385 to 387: \<^verbatim>\<open>data.items()\<close> needs a dictionary, \<^verbatim>\<open>value["index_summary"]\<close>
  a dictionary with that key.
\<close>

fun summaries_loop ::
  "(pykey \<times> pyval) list \<Rightarrow> (pykey \<times> pyval) list \<Rightarrow> py_error + (pykey \<times> pyval) list" where
  "summaries_loop [] videos_data = Inr videos_data"
| "summaries_loop ((key, val) # rest) videos_data =
     (case getitem_str val ''index_summary'' of
        Inl e \<Rightarrow> Inl e
      | Inr summary \<Rightarrow> summaries_loop rest (dict_set videos_data key summary))"

fun summaries_of :: "pyval \<Rightarrow> py_error + (pykey \<times> pyval) list" where
  "summaries_of (PDict d) = summaries_loop d []"
| "summaries_of _ = Inl AttributeError"

text \<open>What \<^verbatim>\<open>for x in v\<close> visits: the elements of a list, the keys of a dictionary, the
  characters of a string.\<close>

fun key_val :: "pykey \<Rightarrow> pyval" where
  "key_val (KInt n) = PInt n"
| "key_val (KStr s) = PStr s"

fun py_iter :: "pyval \<Rightarrow> py_error + pyval list" where
  "py_iter (PList xs) = Inr xs"
| "py_iter (PDict d) = Inr (map (\<lambda>kv. key_val (fst kv)) d)"
| "py_iter (PStr s) = Inr (map (\<lambda>c. PStr [c]) s)"
| "py_iter _ = Inl TypeError"

text \<open>
  An identifier that the selector returned, as a key of \<^verbatim>\<open>individual_answers\<close>;
  \<^verbatim>\<open>str(UUID)\<close> is then \<open>key_str\<close> of it. An identifier that is neither an integer nor a
  string is outside the model.
\<close>

fun as_key :: "pyval \<Rightarrow> py_error + pykey" where
  "as_key (PInt n) = Inr (KInt n)"
| "as_key (PStr s) = Inr (KStr s)"
| "as_key _ = Inl Unmodelled"

text \<open>The strings that \<^verbatim>\<open>', '.join(files)\<close> accepts, which the loops over \<^verbatim>\<open>files\<close>
  then visit.\<close>

fun str_items :: "pyval \<Rightarrow> py_error + string list" where
  "str_items v =
     (case py_iter v of
        Inl e \<Rightarrow> Inl e
      | Inr xs \<Rightarrow>
          if \<forall>x \<in> set xs. (case x of PStr s \<Rightarrow> True | _ \<Rightarrow> False)
          then Inr (map (\<lambda>x. case x of PStr s \<Rightarrow> s | _ \<Rightarrow> []) xs)
          else Inl TypeError)"

text \<open>The loop of lines 437 to 439.\<close>

fun upload_files :: "string list \<Rightarrow> world \<Rightarrow> (py_error + part list) \<times> world" where
  "upload_files [] w = (Inr [], w)"
| "upload_files (i # rest) w =
     (case files_upload i w of
        (Inl e, w1) \<Rightarrow> (Inl e, w1)
      | (Inr temp, w1) \<Rightarrow>
          (case upload_files rest w1 of
             (Inl e, w2) \<Rightarrow> (Inl e, w2)
           | (Inr temps, w2) \<Rightarrow> (Inr (temp # temps), w2)))"

text \<open>The body of the loop over \<^verbatim>\<open>relevant_ids\<close>, lines 428 to 442; \<open>data\<close> is
  \<^verbatim>\<open>metadata["UUID"]\<close>.\<close>

definition answer_one ::
  "string \<Rightarrow> pyval \<Rightarrow> pyval \<Rightarrow> world \<Rightarrow> (py_error + pykey \<times> string option) \<times> world" where
  "answer_one query data UUID w =
     (case as_key UUID of
        Inl e \<Rightarrow> (Inl e, w)
      | Inr key \<Rightarrow>
          (case getitem_str data (key_str key) of
             Inl e \<Rightarrow> (Inl e, w)
           | Inr lecture_info \<Rightarrow>
               (case getitem_str lecture_info ''Path'' of
                  Inl e \<Rightarrow> (Inl e, w)
                | Inr file_list \<Rightarrow>
                    (case str_items file_list of
                       Inl e \<Rightarrow> (Inl e, w)
                     | Inr names \<Rightarrow>
                         (let w1 = warn_missing names (say QueryingFiles w)
                          in case upload_files (filter (path_exists w1) names) w1 of
                               (Inl e, w2) \<Rightarrow> (Inl e, w2)
                             | (Inr handles, w2) \<Rightarrow>
                                 (case safe_generate_content GEMINI_MODEL_NAME
                                         ([Prompt (''Using the data provided answer the query'' @ nl),
                                           Prompt query] @ handles)
                                         MAX_API_RETRIES w2 of
                                    (ans, w3) \<Rightarrow> (Inr (key, ans), w3)))))))"

fun answer_each ::
  "string \<Rightarrow> pyval \<Rightarrow> pyval list \<Rightarrow> (pykey \<times> string option) list \<Rightarrow> world \<Rightarrow>
   (py_error + (pykey \<times> string option) list) \<times> world" where
  "answer_each query data [] individual_answers w = (Inr individual_answers, w)"
| "answer_each query data (UUID # rest) individual_answers w =
     (case answer_one query data UUID w of
        (Inl e, w1) \<Rightarrow> (Inl e, w1)
      | (Inr (key, ans), w1) \<Rightarrow>
          answer_each query data rest (dict_set individual_answers key ans) w1)"

text \<open>\<^verbatim>\<open>ans and "Error:" not in ans\<close>.\<close>

definition usable :: "string option \<Rightarrow> bool" where
  "usable ans = (case ans of None \<Rightarrow> False | Some a \<Rightarrow> a \<noteq> [] \<and> \<not> substring ''Error:'' a)"

text \<open>Lines 446 to 452.\<close>

definition synthesis_context_of :: "(pykey \<times> string option) list \<Rightarrow> string" where
  "synthesis_context_of individual_answers =
     strip (join (nl @ nl)
       (map (\<lambda>item. ''Answer from File '' @ key_str (fst item) @ '':'' @ nl @
                     (case snd item of None \<Rightarrow> ''None'' | Some a \<Rightarrow> a))
            (filter (\<lambda>item. usable (snd item)) individual_answers)))"

definition final_prompt_of :: "string \<Rightarrow> string \<Rightarrow> string" where
  "final_prompt_of query synthesis_context =
     ''You are an AI assistant synthesizing information from different lecture audio segments '' @
     ''to answer a student'' @ squote @ ''s query.'' @ nl @
     ''The student asked: '' @ dquote @ query @ dquote @ nl @ nl @
     ''Based *only* on the following answers derived directly from the relevant lecture audio '' @
     ''recordings, provide a single, comprehensive, and well-structured final answer. '' @
     ''If the individual answers conflict, are insufficient, or indicate errors, acknowledge '' @
     ''that.'' @ nl @ nl @
     ''Individual Answers:'' @ nl @ synthesis_context @ nl @ nl @
     ''Final Synthesized Answer:''"

text \<open>Step 3 of \<^verbatim>\<open>query_lectures\<close>, lines 444 to 482.\<close>

definition synthesize :: "string \<Rightarrow> (pykey \<times> string option) list \<Rightarrow> world \<Rightarrow> world" where
  "synthesize query individual_answers w =
     (let w1 = say Step3 w;
          synthesis_context = synthesis_context_of individual_answers
      in if strip synthesis_context = [] then say NoValidAnswers w1
         else (case safe_generate_content GEMINI_TEXT_MODEL_NAME
                      [Prompt (final_prompt_of query synthesis_context)] MAX_API_RETRIES w1 of
                 (final_answer, w2) \<Rightarrow>
                   if usable final_answer
                   then say Banner
                          (say (FinalAnswer (case final_answer of None \<Rightarrow> [] | Some a \<Rightarrow> a))
                             (say FinalAnswerHeader (say Banner w2)))
                   else say (Context synthesis_context)
                          (say IndividualAnswersUsed (say (SynthesisFailed final_answer) w2))))"

text \<open>
  \<^verbatim>\<open>query_lectures\<close>. The test of line 392 never succeeds, since \<^verbatim>\<open>json.dumps\<close> of a
  dictionary is never blank. The function returns nothing: \<open>Inr ()\<close> is a \<^verbatim>\<open>return\<close>,
  \<open>Inl\<close> an exception that leaves it.
\<close>

definition query_lectures :: "string \<Rightarrow> world \<Rightarrow> (py_error + unit) \<times> world" where
  "query_lectures query w =
     (case load_metadata CONFIG_FILE w of
        (Inl e, w1) \<Rightarrow> (Inl e, w1)
      | (Inr metadata, w1) \<Rightarrow>
          (case getitem_str metadata ''UUID'' of
             Inl e \<Rightarrow> (Inl e, w1)
           | Inr data \<Rightarrow>
               if \<not> truthy data then (Inr (), say NoLecturesAdded w1)
               else (case summaries_of data of
                       Inl e \<Rightarrow> (Inl e, w1)
                     | Inr videos_data \<Rightarrow>
                         (case get_structured_uuids_response query (PDict videos_data)
                                 GEMINI_TEXT_MODEL_NAME (say Step1 w1) of
                            (selected, w2) \<Rightarrow>
                              if \<not> truthy selected then (Inr (), say RelevanceCheckError w2)
                              else (case getitem_str selected ''UUIDs'' of
                                      Inl e \<Rightarrow> (Inl e, w2)
                                    | Inr relevant_ids \<Rightarrow>
                                        if \<not> truthy relevant_ids
                                        then (Inr (), say NoneRelevant w2)
                                        else (let w3 = say Step2 w2
                                              in case client_error w3 of
                                                   Some m \<Rightarrow> (Inl (ValueError m), w3)
                                                 | None \<Rightarrow>
                                                     (case py_iter relevant_ids of
                                                        Inl e \<Rightarrow> (Inl e, w3)
                                                      | Inr ids \<Rightarrow>
                                                          (case answer_each query data ids [] w3 of
                                                             (Inl e, w4) \<Rightarrow> (Inl e, w4)
                                                           | (Inr individual_answers, w4) \<Rightarrow>
                                                               (Inr (),
                                                                synthesize query individual_answers
                                                                  w4)))))))))"

section \<open>Notions used in the statements\<close>

text \<open>The message of the error with which an attempt fails inside
  \<^verbatim>\<open>safe_generate_content\<close>, \<open>None\<close> for an attempt that returns.\<close>

fun attempt_error :: "attempt \<Rightarrow> string option" where
  "attempt_error (Raises m) = Some m"
| "attempt_error (Returns NoTextAttr) = Some no_text_attribute"
| "attempt_error (Returns r) = None"

text \<open>A value as \<^verbatim>\<open>json.load\<close> builds it: every key is a string, no dictionary
  repeats a key.\<close>

fun is_KStr :: "pykey \<Rightarrow> bool" where
  "is_KStr (KStr s) = True"
| "is_KStr (KInt n) = False"

fun json_shaped :: "pyval \<Rightarrow> bool" where
  "json_shaped (PList xs) = (\<forall>x \<in> set xs. json_shaped x)"
| "json_shaped (PDict d) =
     (distinct (map fst d) \<and> (\<forall>kv \<in> set d. is_KStr (fst kv) \<and> json_shaped (snd kv)))"
| "json_shaped _ = True"

text \<open>Two states that differ at most in what has been printed.\<close>

definition same_outside :: "world \<Rightarrow> world \<Rightarrow> bool" where
  "same_outside w v = (w\<lparr>stdout := []\<rparr> = v\<lparr>stdout := []\<rparr>)"




subsection \<open>Example states\<close>

text \<open>Nothing on disk, the encoder installed and succeeding, every request answered with
  the text \<^verbatim>\<open>fact\<close>, every upload accepted.\<close>

definition quiet_world :: world where
  "quiet_world =
     \<lparr>files = (\<lambda>p. None), ffmpeg_installed = True, ffmpeg_script = (\<lambda>n. Exit 0),
      client_error = None, gen_script = (\<lambda>n. Returns (WithText (Some ''fact''))),
      upload_script = (\<lambda>n. None), json_loads = (\<lambda>t. None), effects = [], stdout = []\<rparr>"

text \<open>A store with one record, and the state whose disk holds it with its artifact and a
  second document that is not indexed yet.\<close>

definition one_record :: json where
  "one_record =
     JObj [(''Path'', JArr [JStr ''lectures/notes.pdf'']), (''Filename'', JStr ''notes.pdf''),
           (''Type'', JStr ''PDF''), (''Archive'', JStr []), (''index_summary'', JStr ''topic A'')]"

definition one_record_store :: json where
  "one_record_store = JObj [(''UUID'', JObj [(''1'', one_record)])]"

definition indexed_world :: world where
  "indexed_world =
     quiet_world\<lparr>files := [CONFIG_FILE \<mapsto> JsonDoc one_record_store,
                            ''lectures/notes.pdf'' \<mapsto> Undecodable,
                            ''slides.pdf'' \<mapsto> Undecodable]\<rparr>"

text \<open>The selector's answer names record 7, which the store does not hold.\<close>

definition unknown_id_reply :: string where
  \<open>unknown_id_reply = ''{"UUIDs": [7]}''\<close>

definition unknown_id_world :: world where
  "unknown_id_world =
     indexed_world\<lparr>gen_script := (\<lambda>n. Returns (WithText (Some unknown_id_reply))),
                     json_loads := (\<lambda>t. if t = unknown_id_reply
                                          then Some (JObj [(''UUIDs'', JArr [JInt 7])]) else None)\<rparr>"

text \<open>The selector's answer is an object without the field \<^verbatim>\<open>UUIDs\<close>.\<close>

definition no_field_reply :: string where
  \<open>no_field_reply = ''{"ids": [1]}''\<close>

definition no_field_world :: world where
  "no_field_world =
     indexed_world\<lparr>gen_script := (\<lambda>n. Returns (WithText (Some no_field_reply))),
                     json_loads := (\<lambda>t. if t = no_field_reply
                                          then Some (JObj [(''ids'', JArr [JInt 1])]) else None)\<rparr>"

text \<open>The first request fails, every later one is answered.\<close>

definition flaky_world :: world where
  "flaky_world =
     quiet_world\<lparr>gen_script := (\<lambda>n. if n = 0 then Raises ''503 unavailable''
                                          else Returns (WithText (Some ''fact'')))\<rparr>"

text \<open>The first two requests fail, the third is answered; and every request fails.\<close>

definition third_time_world :: world where
  "third_time_world =
     quiet_world\<lparr>gen_script := (\<lambda>n. if n < 2 then Raises ''503 unavailable''
                                          else Returns (WithText (Some ''fact'')))\<rparr>"

definition down_world :: world where
  "down_world = quiet_world\<lparr>gen_script := (\<lambda>n. Raises ''503 unavailable'')\<rparr>"

text \<open>An artifact on disk; and the same with a service that refuses uploads.\<close>

definition artifact_world :: world where
  "artifact_world = quiet_world\<lparr>files := [''lectures/talk.opus'' \<mapsto> Undecodable]\<rparr>"

definition upload_refused_world :: world where
  "upload_refused_world = artifact_world\<lparr>upload_script := (\<lambda>n. Some ''upload failed'')\<rparr>"

text \<open>A video to add, with the encoder missing, and with an encoder that exits with status 1.\<close>

definition no_encoder_world :: world where
  "no_encoder_world =
     quiet_world\<lparr>files := [''talk.mp4'' \<mapsto> Undecodable], ffmpeg_installed := False\<rparr>"

definition failing_encoder_world :: world where
  "failing_encoder_world =
     quiet_world\<lparr>files := [''talk.mp4'' \<mapsto> Undecodable], ffmpeg_script := (\<lambda>n. Exit 1)\<rparr>"

text \<open>A store file that is not text, and one that holds the JSON document \<^verbatim>\<open>[]\<close>.\<close>

definition binary_store_world :: world where
  "binary_store_world = quiet_world\<lparr>files := [CONFIG_FILE \<mapsto> Undecodable]\<rparr>"

definition list_store_world :: world where
  "list_store_world = quiet_world\<lparr>files := [CONFIG_FILE \<mapsto> JsonDoc (JArr [])]\<rparr>"

definition garbled_store_world :: world where
  "garbled_store_world = quiet_world\<lparr>files := [CONFIG_FILE \<mapsto> NotJson]\<rparr>"




section \<open>Basic facts\<close>

lemma say_fields [simp]:
  "files (say m w) = files w" "ffmpeg_installed (say m w) = ffmpeg_installed w"
  "ffmpeg_script (say m w) = ffmpeg_script w" "client_error (say m w) = client_error w"
  "gen_script (say m w) = gen_script w" "upload_script (say m w) = upload_script w"
  "json_loads (say m w) = json_loads w" "effects (say m w) = effects w"
  "stdout (say m w) = stdout w @ [m]"
  by (simp_all add: say_def)

lemma emit_fields [simp]:
  "files (emit e w) = files w" "ffmpeg_installed (emit e w) = ffmpeg_installed w"
  "ffmpeg_script (emit e w) = ffmpeg_script w" "client_error (emit e w) = client_error w"
  "gen_script (emit e w) = gen_script w" "upload_script (emit e w) = upload_script w"
  "json_loads (emit e w) = json_loads w" "effects (emit e w) = effects w @ [e]"
  "stdout (emit e w) = stdout w"
  by (simp_all add: emit_def)

lemma say_counts [simp]:
  "api_calls (say m w) = api_calls w" "upload_calls (say m w) = upload_calls w"
  "ffmpeg_runs (say m w) = ffmpeg_runs w" "sleeps (say m w) = sleeps w"
  "path_exists (say m w) = path_exists w"
  by (simp_all add: api_calls_def upload_calls_def ffmpeg_runs_def sleeps_def path_exists_def
      fun_eq_iff)

lemma emit_counts [simp]:
  "api_calls (emit (Generate m ps) w) = Suc (api_calls w)"
  "api_calls (emit (GenerateJSON m q d) w) = Suc (api_calls w)"
  "api_calls (emit (Sleep n) w) = api_calls w"
  "api_calls (emit (Upload p) w) = api_calls w"
  "upload_calls (emit (Upload p) w) = Suc (upload_calls w)"
  "path_exists (emit e w) = path_exists w"
  by (simp_all add: api_calls_def upload_calls_def path_exists_def fun_eq_iff)

lemma load_metadata_effects: "load_metadata f w = (r, w1) \<Longrightarrow> effects w1 = effects w"
  by (auto simp: load_metadata_def Let_def
      split: option.splits content.splits sum.splits bool.splits)

section \<open>The synthesis step without a valid answer\<close>

text \<open>
  C8: when every per-record answer is missing, empty or contains the marker
  \<^verbatim>\<open>Error:\<close>, step 3 of \<^verbatim>\<open>query_lectures\<close> prints that no valid answers were
  retrieved and ends: nothing is sent to the generative service, and nothing else happens
  outside the program.
\<close>

theorem synthesis_without_valid_answers:
  assumes "\<forall>item \<in> set individual_answers.
             snd item = None \<or> snd item = Some [] \<or>
             (\<exists>a. snd item = Some a \<and> substring ''Error:'' a)"
  shows "synthesize query individual_answers w = say NoValidAnswers (say Step3 w)
         \<and> effects (synthesize query individual_answers w) = effects w"
proof -
  have "\<forall>item \<in> set individual_answers. \<not> usable (snd item)"
    using assms by (auto simp: usable_def)
  then have "filter (\<lambda>item. usable (snd item)) individual_answers = []"
    by (simp add: filter_empty_conv)
  then have "synthesis_context_of individual_answers = []"
    by (simp add: synthesis_context_of_def strip_def)
  then show ?thesis
    by (simp add: synthesize_def strip_def)
qed

theorem synthesis_without_valid_answers_witness:
  "synthesize ''what is topic A'' [(KInt 1, Some ''Error: x''), (KInt 2, Some [])] quiet_world
     = say NoValidAnswers (say Step3 quiet_world)
   \<and> effects (synthesize ''what is topic A'' [(KInt 1, Some ''Error: x''), (KInt 2, Some [])]
                quiet_world) = []"
  using synthesis_without_valid_answers
          [of "[(KInt 1, Some ''Error: x''), (KInt 2, Some [])]" "''what is topic A''" quiet_world]
  by (simp add: quiet_world_def)

section \<open>The empty store and the relevance selector\<close>

text \<open>
  C7, as the code has it: the guard for an empty store stands in \<^verbatim>\<open>query_lectures\<close>,
  before the summaries are collected. When \<^verbatim>\<open>metadata["UUID"]\<close> is empty the query
  prints that no lectures have been added and returns; the selector is not called and nothing
  is sent to the generative service.
\<close>

theorem query_on_empty_store:
  assumes "load_metadata CONFIG_FILE w = (Inr metadata, w1)"
    and "getitem_str metadata ''UUID'' = Inr data"
    and "\<not> truthy data"
  shows "query_lectures query w = (Inr (), say NoLecturesAdded w1)
         \<and> effects (say NoLecturesAdded w1) = effects w"
  using assms load_metadata_effects[OF assms(1)] by (simp add: query_lectures_def)

theorem query_on_empty_store_witness:
  "query_lectures ''what is topic A'' quiet_world = (Inr (), say NoLecturesAdded quiet_world)
   \<and> effects (say NoLecturesAdded quiet_world) = effects quiet_world"
  using query_on_empty_store
          [of quiet_world empty_store quiet_world "PDict []" "''what is topic A''"]
  by (simp add: load_metadata_def quiet_world_def empty_store_def)

text \<open>
  The selector itself has no such guard: called with the empty mapping it sends its request.
\<close>

theorem selector_asks_for_empty_mapping:
  "effects (snd (get_structured_uuids_response ''what is topic A'' (PDict [])
                   GEMINI_TEXT_MODEL_NAME quiet_world))
     = [GenerateJSON GEMINI_TEXT_MODEL_NAME ''what is topic A'' (PDict [])]"
  by (simp add: get_structured_uuids_response_def quiet_world_def api_calls_def)

section \<open>The retry policy\<close>

lemma try_generate_error:
  assumes "client_error w = None" "attempt_error (gen_script w (api_calls w)) = Some e"
  shows "try_generate model prompt w = (Inl e, emit (Generate model prompt) w)"
  using assms by (cases "gen_script w (api_calls w)" rule: attempt_error.cases)
    (auto simp: try_generate_def generate_content_def)

lemma try_generate_text:
  assumes "client_error w = None" "gen_script w (api_calls w) = Returns (WithText t)"
  shows "try_generate model prompt w = (Inr t, emit (Generate model prompt) w)"
  using assms by (simp add: try_generate_def generate_content_def)

lemma safe_generate_retry:
  assumes "client_error w = None" "attempt_error (gen_script w (api_calls w)) = Some e"
    and "attempt + 1 < retries"
  shows "safe_generate_from model prompt retries attempt w =
         safe_generate_from model prompt retries (attempt + 1)
           (emit (Sleep API_RETRY_DELAY) (say (Retrying API_RETRY_DELAY)
              (say (ApiCallError (attempt + 1) retries e) (emit (Generate model prompt) w))))"
  using assms by (subst safe_generate_from.simps) (simp add: try_generate_error)

lemma safe_generate_give_up:
  assumes "client_error w = None" "attempt_error (gen_script w (api_calls w)) = Some e"
    and "attempt < retries" "\<not> attempt + 1 < retries"
  shows "safe_generate_from model prompt retries attempt w =
         (Some (api_failure retries e),
          say MaxRetriesReached (say (ApiCallError (attempt + 1) retries e)
            (emit (Generate model prompt) w)))"
  using assms by (subst safe_generate_from.simps) (simp add: try_generate_error)

lemma safe_generate_text:
  assumes "client_error w = None" "gen_script w (api_calls w) = Returns (WithText t)"
    and "attempt < retries"
  shows "safe_generate_from model prompt retries attempt w = (t, emit (Generate model prompt) w)"
  using assms by (subst safe_generate_from.simps) (simp add: try_generate_text)

lemma str_int_3: "str_int 3 = ''3''"
  by (simp add: str_int_def str_nat.simps)

lemma selector_single_attempt:
  assumes "client_error x = None" "attempt_error (gen_script x (api_calls x)) = Some e"
  shows "get_structured_uuids_response q d m x =
           (PNone, say UnexpectedError (emit (GenerateJSON m q d) x))"
  using assms by (cases "gen_script x (api_calls x)" rule: attempt_error.cases)
    (auto simp: get_structured_uuids_response_def)

lemma safe_generate_from_bounded:
  "api_calls (snd (safe_generate_from model prompt retries attempt w)) \<le> api_calls w + (retries - attempt)
   \<and> sleeps (snd (safe_generate_from model prompt retries attempt w)) \<le> sleeps w + (retries - attempt - 1)"
proof (induction model prompt retries attempt w rule: safe_generate_from.induct)
  case (1 model prompt retries attempt w)
  show ?case
  proof (cases "attempt < retries")
    case False
    then have "safe_generate_from model prompt retries attempt w = (None, w)"
      by (subst safe_generate_from.simps) simp
    then show ?thesis by simp
  next
    case True
    obtain r w1 where t: "try_generate model prompt w = (r, w1)" by (cases "try_generate model prompt w")
    have w1: "api_calls w1 \<le> Suc (api_calls w)" "sleeps w1 = sleeps w"
      using t by (auto simp: try_generate_def generate_content_def api_calls_def sleeps_def
          split: option.splits attempt.splits response.splits)
    show ?thesis
    proof (cases r)
      case (Inr res)
      then have "safe_generate_from model prompt retries attempt w = (res, w1)"
        using True t by (subst safe_generate_from.simps) simp
      then show ?thesis using True w1 by simp arith
    next
      case (Inl e)
      let ?w2 = "say (ApiCallError (attempt + 1) retries e) w1"
      let ?w3 = "emit (Sleep API_RETRY_DELAY) (say (Retrying API_RETRY_DELAY) ?w2)"
      show ?thesis
      proof (cases "attempt + 1 < retries")
        case False
        then have "safe_generate_from model prompt retries attempt w =
                     (Some (api_failure retries e), say MaxRetriesReached ?w2)"
          using True t Inl by (subst safe_generate_from.simps) simp
        then show ?thesis using True w1 by simp arith
      next
        case more: True
        have ih: "api_calls (snd (safe_generate_from model prompt retries (attempt + 1) ?w3)) \<le> api_calls ?w3 + (retries - (attempt + 1))
   \<and> sleeps (snd (safe_generate_from model prompt retries (attempt + 1) ?w3)) \<le> sleeps ?w3 + (retries - (attempt + 1) - 1)"
          using "1.IH"[OF True t[symmetric] Inl refl more] by simp
        have a3: "api_calls ?w3 = api_calls w1" "sleeps ?w3 = Suc (sleeps w1)"
          by (simp_all add: api_calls_def sleeps_def)
        have eq: "safe_generate_from model prompt retries attempt w = safe_generate_from model prompt retries (attempt + 1) ?w3"
          using True t Inl more by (subst safe_generate_from.simps) simp
        show ?thesis unfolding eq using ih a3 w1 more by auto
      qed
    qed
  qed
qed

text \<open>
  C4, as the code has it. Every request for free text goes through
  \<^verbatim>\<open>safe_generate_content\<close>, which makes at most three attempts with a pause of five
  seconds between two attempts and raises nothing: when two attempts fail and the third
  returns a text, the result is that text after exactly two pauses; when all three fail, the
  result is the text \<^verbatim>\<open>Error: API call failed after 3 retries:\<close> followed by the last
  error, again after two pauses; whatever the service answers, no more than three requests
  and two pauses are made. The relevance selector is not wrapped: it makes one request and on
  an error returns \<^verbatim>\<open>None\<close> at once, without a pause.
\<close>

theorem retry_policy:
  "(client_error w = None \<longrightarrow>
      attempt_error (gen_script w (api_calls w)) = Some e1 \<longrightarrow>
      attempt_error (gen_script w (api_calls w + 1)) = Some e2 \<longrightarrow>
      gen_script w (api_calls w + 2) = Returns (WithText t) \<longrightarrow>
        fst (safe_generate_content model prompt MAX_API_RETRIES w) = t \<and>
        effects (snd (safe_generate_content model prompt MAX_API_RETRIES w)) =
          effects w @ [Generate model prompt, Sleep API_RETRY_DELAY,
                       Generate model prompt, Sleep API_RETRY_DELAY, Generate model prompt])
   \<and> (client_error v = None \<longrightarrow>
      attempt_error (gen_script v (api_calls v)) = Some f1 \<longrightarrow>
      attempt_error (gen_script v (api_calls v + 1)) = Some f2 \<longrightarrow>
      attempt_error (gen_script v (api_calls v + 2)) = Some f3 \<longrightarrow>
        fst (safe_generate_content model prompt MAX_API_RETRIES v) =
          Some (''Error: API call failed after 3 retries: '' @ f3) \<and>
        effects (snd (safe_generate_content model prompt MAX_API_RETRIES v)) =
          effects v @ [Generate model prompt, Sleep API_RETRY_DELAY,
                       Generate model prompt, Sleep API_RETRY_DELAY, Generate model prompt])
   \<and> (client_error x = None \<longrightarrow>
      attempt_error (gen_script x (api_calls x)) = Some e \<longrightarrow>
        get_structured_uuids_response q d m x =
          (PNone, say UnexpectedError (emit (GenerateJSON m q d) x)))
   \<and> api_calls (snd (safe_generate_content model prompt MAX_API_RETRIES u)) \<le> api_calls u + 3
   \<and> sleeps (snd (safe_generate_content model prompt MAX_API_RETRIES u)) \<le> sleeps u + 2"
  using safe_generate_from_bounded[of model prompt 3 0 u]
  unfolding safe_generate_content_def MAX_API_RETRIES_def
  by (simp add: safe_generate_retry safe_generate_text safe_generate_give_up api_failure_def
      str_int_3 selector_single_attempt)

theorem retry_policy_witness:
  "fst (safe_generate_content GEMINI_MODEL_NAME [Prompt ''q''] MAX_API_RETRIES third_time_world)
     = Some ''fact''
   \<and> effects (snd (safe_generate_content GEMINI_MODEL_NAME [Prompt ''q''] MAX_API_RETRIES
                     third_time_world))
     = [Generate GEMINI_MODEL_NAME [Prompt ''q''], Sleep 5,
        Generate GEMINI_MODEL_NAME [Prompt ''q''], Sleep 5,
        Generate GEMINI_MODEL_NAME [Prompt ''q'']]
   \<and> fst (safe_generate_content GEMINI_MODEL_NAME [Prompt ''q''] MAX_API_RETRIES down_world)
     = Some ''Error: API call failed after 3 retries: 503 unavailable''
   \<and> effects (snd (safe_generate_content GEMINI_MODEL_NAME [Prompt ''q''] MAX_API_RETRIES
                     down_world))
     = [Generate GEMINI_MODEL_NAME [Prompt ''q''], Sleep 5,
        Generate GEMINI_MODEL_NAME [Prompt ''q''], Sleep 5,
        Generate GEMINI_MODEL_NAME [Prompt ''q'']]
   \<and> get_structured_uuids_response ''q'' (PDict []) GEMINI_TEXT_MODEL_NAME flaky_world
     = (PNone, say UnexpectedError
                 (emit (GenerateJSON GEMINI_TEXT_MODEL_NAME ''q'' (PDict [])) flaky_world))
   \<and> api_calls (snd (safe_generate_content GEMINI_MODEL_NAME [Prompt ''q''] MAX_API_RETRIES
                       down_world)) \<le> 3
   \<and> sleeps (snd (safe_generate_content GEMINI_MODEL_NAME [Prompt ''q''] MAX_API_RETRIES
                    down_world)) \<le> 2"
  using retry_policy
          [of third_time_world "''503 unavailable''" "''503 unavailable''" "Some ''fact''"
              GEMINI_MODEL_NAME "[Prompt ''q'']"
              down_world "''503 unavailable''" "''503 unavailable''" "''503 unavailable''"
              flaky_world "''503 unavailable''" "''q''" "PDict []" GEMINI_TEXT_MODEL_NAME
              down_world]
  by (simp add: third_time_world_def down_world_def flaky_world_def quiet_world_def
      api_calls_def sleeps_def API_RETRY_DELAY_def)

text \<open>
  The claim as stated fails for the relevance selector: its first request fails, it returns
  \<^verbatim>\<open>None\<close> after that single request, where the wrapper in the same state goes on to
  the second attempt and obtains the text.
\<close>

theorem selector_is_not_retried:
  "fst (get_structured_uuids_response ''q'' (PDict [(KStr ''1'', PStr ''topic A'')])
          GEMINI_TEXT_MODEL_NAME flaky_world) = PNone
   \<and> effects (snd (get_structured_uuids_response ''q'' (PDict [(KStr ''1'', PStr ''topic A'')])
                     GEMINI_TEXT_MODEL_NAME flaky_world))
     = [GenerateJSON GEMINI_TEXT_MODEL_NAME ''q'' (PDict [(KStr ''1'', PStr ''topic A'')])]
   \<and> fst (safe_generate_content GEMINI_TEXT_MODEL_NAME [Prompt ''q''] MAX_API_RETRIES flaky_world)
     = Some ''fact''"
proof -
  have c: "client_error flaky_world = None"
    and g0: "gen_script flaky_world 0 = Raises ''503 unavailable''"
    and g1: "gen_script flaky_world (Suc 0) = Returns (WithText (Some ''fact''))"
    and a: "api_calls flaky_world = 0"
    and e: "effects flaky_world = []"
    by (simp_all add: flaky_world_def quiet_world_def api_calls_def)
  have "safe_generate_from GEMINI_TEXT_MODEL_NAME [Prompt ''q''] 3 0 flaky_world
        = (Some ''fact'', emit (Generate GEMINI_TEXT_MODEL_NAME [Prompt ''q''])
             (emit (Sleep API_RETRY_DELAY) (say (Retrying API_RETRY_DELAY)
               (say (ApiCallError 1 3 ''503 unavailable'')
                  (emit (Generate GEMINI_TEXT_MODEL_NAME [Prompt ''q'']) flaky_world)))))"
    using c g0 g1 a by (simp add: safe_generate_retry safe_generate_text)
  then show ?thesis using c g0 a e
    by (simp add: safe_generate_content_def MAX_API_RETRIES_def get_structured_uuids_response_def)
qed


section \<open>Indexing a list of artifacts\<close>

lemma checked_files_keeps: "fst (checked_files path w) = path"
  by (induction path arbitrary: w) (simp_all add: case_prod_beta)

lemma checked_files_world:
  "client_error (snd (checked_files path w)) = client_error w
   \<and> files (snd (checked_files path w)) = files w
   \<and> effects (snd (checked_files path w)) = effects w
   \<and> upload_script (snd (checked_files path w)) = upload_script w
   \<and> gen_script (snd (checked_files path w)) = gen_script w"
  by (induction path arbitrary: w) (simp_all add: case_prod_beta)

lemma upload_each_ok:
  assumes "\<forall>p \<in> set path. path_exists w p"
    and "\<forall>i < length path. upload_script w (upload_calls w + i) = None"
  shows "\<exists>w'. upload_each path w = (Inr (map FileRef path), w') \<and> client_error w' = client_error w"
  using assms
proof (induction path arbitrary: w)
  case Nil
  then show ?case by simp
next
  case (Cons p path)
  let ?w1 = "say TheTime (emit (Upload p) (say (UploadingFile p) w))"
  have up: "files_upload p (say (UploadingFile p) w) = (Inr (FileRef p), emit (Upload p) (say (UploadingFile p) w))"
    using Cons.prems(1) Cons.prems(2)[rule_format, of 0] by (simp add: files_upload_def)
  have "\<forall>q \<in> set path. path_exists ?w1 q" using Cons.prems(1) by simp
  moreover have "\<forall>i < length path. upload_script ?w1 (upload_calls ?w1 + i) = None"
    using Cons.prems(2) by (auto simp: less_Suc_eq_0_disj)
  ultimately obtain w' where "upload_each path ?w1 = (Inr (map FileRef path), w')" "client_error w' = client_error ?w1"
    using Cons.IH by blast
  then show ?case using up by simp
qed

text \<open>
  C2, as the code has it: when the client can be built and every path of the list is a file
  whose upload succeeds, \<^verbatim>\<open>index_content\<close> raises nothing and returns either a
  non-empty string or \<^verbatim>\<open>None\<close>. (The string can be the text with which
  \<^verbatim>\<open>safe_generate_content\<close> reports that its attempts failed.)
\<close>

theorem index_content_returns:
  assumes "client_error w = None" and "\<forall>p \<in> set path. path_exists w p"
    and "\<forall>i < length path. upload_script w (upload_calls w + i) = None"
  shows "\<exists>w'. index_content path w = (Inr None, w')
              \<or> (\<exists>s. s \<noteq> [] \<and> index_content path w = (Inr (Some s), w'))"
proof -
  obtain tl w1 where cf: "checked_files path (say (UploadingFiles path) (say (IndexingFile path) w)) = (tl, w1)"
    by (cases "checked_files path (say (UploadingFiles path) (say (IndexingFile path) w))")
  have tl: "tl = path" using checked_files_keeps[of path "say (UploadingFiles path) (say (IndexingFile path) w)"] cf by simp
  have w1: "files w1 = files w" "effects w1 = effects w" "upload_script w1 = upload_script w"
    using checked_files_world[of path "say (UploadingFiles path) (say (IndexingFile path) w)"] cf by simp_all
  have "\<forall>p \<in> set path. path_exists w1 p" using assms(2) w1 by (simp add: path_exists_def)
  moreover have "\<forall>i < length path. upload_script w1 (upload_calls w1 + i) = None"
    using assms(3) w1 by (simp add: upload_calls_def)
  ultimately obtain w2 where up: "upload_each path w1 = (Inr (map FileRef path), w2)"
    using upload_each_ok by blast
  obtain r w3 where sg: "safe_generate_content GEMINI_MODEL_NAME (Prompt index_prompt # map FileRef path) MAX_API_RETRIES (say FilesUploaded w2) = (r, w3)"
    by (cases "safe_generate_content GEMINI_MODEL_NAME (Prompt index_prompt # map FileRef path) MAX_API_RETRIES (say FilesUploaded w2)")
  show ?thesis
    using assms(1) cf tl up sg by (cases r) (auto simp: index_content_def)
qed


theorem index_content_returns_witness:
  "client_error artifact_world = None \<and> path_exists artifact_world ''lectures/talk.opus''
   \<and> upload_script artifact_world (upload_calls artifact_world) = None
   \<and> fst (index_content [''lectures/talk.opus''] artifact_world) = Inr (Some ''fact'')"
proof -
  have h: "client_error artifact_world = None"
    "\<forall>p \<in> set [''lectures/talk.opus'']. path_exists artifact_world p"
    "\<forall>i < length [''lectures/talk.opus''].
        upload_script artifact_world (upload_calls artifact_world + i) = None"
    by (simp_all add: artifact_world_def quiet_world_def path_exists_def)
  from index_content_returns[OF h] obtain w' where
    "index_content [''lectures/talk.opus''] artifact_world = (Inr None, w')
     \<or> (\<exists>s. s \<noteq> [] \<and> index_content [''lectures/talk.opus''] artifact_world = (Inr (Some s), w'))"
    by blast
  moreover have "fst (index_content [''lectures/talk.opus''] artifact_world) = Inr (Some ''fact'')"
    by (simp add: index_content_def files_upload_def safe_generate_content_def
        MAX_API_RETRIES_def safe_generate_text artifact_world_def quiet_world_def path_exists_def
        upload_calls_def api_calls_def)
  ultimately show ?thesis using h by simp
qed

text \<open>
  The claim as stated fails: \<^verbatim>\<open>client.files.upload\<close> is called outside any
  \<^verbatim>\<open>try\<close>, so an upload that the service refuses raises out of
  \<^verbatim>\<open>index_content\<close>, for a list of one existing artifact.
\<close>

theorem upload_error_leaves_index_content:
  "fst (index_content [''lectures/talk.opus''] upload_refused_world) = Inl (APIError ''upload failed'')"
  by (simp add: index_content_def files_upload_def upload_refused_world_def artifact_world_def
      quiet_world_def path_exists_def upload_calls_def)

text \<open>
  C3 fails on the code: the loop of lines 347 to 352 reports a missing file and then keeps it,
  so the upload loop reaches it. With an existing first artifact and a missing second one,
  both paths stay in the list, the first is uploaded, the upload of the second raises
  \<^verbatim>\<open>FileNotFoundError\<close> out of \<^verbatim>\<open>index_content\<close>, and no request is
  made for the surviving artifact.
\<close>

theorem missing_file_is_uploaded:
  "fst (checked_files [''lectures/talk.opus'', ''lectures/talk.mp4''] artifact_world)
     = [''lectures/talk.opus'', ''lectures/talk.mp4'']
   \<and> fst (index_content [''lectures/talk.opus'', ''lectures/talk.mp4''] artifact_world)
     = Inl FileNotFoundError
   \<and> effects (snd (index_content [''lectures/talk.opus'', ''lectures/talk.mp4''] artifact_world))
     = [Upload ''lectures/talk.opus'']"
  by (simp add: index_content_def files_upload_def artifact_world_def
      quiet_world_def path_exists_def upload_calls_def)


section \<open>What is printed does not matter\<close>

text \<open>
  Nothing in the program reads what it has printed: from two states that differ only there,
  every operation gives the same result and again two such states.
\<close>

lemma same_outside_iff:
  "same_outside w v \<longleftrightarrow>
     files w = files v \<and> ffmpeg_installed w = ffmpeg_installed v \<and>
     ffmpeg_script w = ffmpeg_script v \<and> client_error w = client_error v \<and>
     gen_script w = gen_script v \<and> upload_script w = upload_script v \<and>
     json_loads w = json_loads v \<and> effects w = effects v"
  by (cases w, cases v) (auto simp: same_outside_def)

lemma same_outside_refl [simp]: "same_outside w w" by (simp add: same_outside_def)

lemma same_outside_say [simp]:
  "same_outside (say m w) v = same_outside w v" "same_outside w (say m v) = same_outside w v"
  by (simp_all add: same_outside_iff say_def)





lemma warn_missing_outside [simp]:
  "same_outside (warn_missing ps w) v = same_outside w v"
  "same_outside v (warn_missing ps w) = same_outside v w"
  by (induction ps arbitrary: w) simp_all





















section \<open>Adding several files at once\<close>

text \<open>\<^verbatim>\<open>add_to_index\<close> on a list that is not empty.\<close>

lemma add_to_index_Cons:
  "add_to_index (first # others) file_type w =
     (case load_metadata CONFIG_FILE w of
        (Inl e, w1) \<Rightarrow> (Inl e, w1)
      | (Inr metadata, w1) \<Rightarrow>
          (case next_uuid_of metadata of
             Inl e \<Rightarrow> (Inl e, w1)
           | Inr next_uuid \<Rightarrow>
               (case normalize_first first file_type (warn_missing (first # others) w1) of
                  (Inl e, w2) \<Rightarrow> (Inl e, w2)
                | (Inr (None, archive), w2) \<Rightarrow> (Inl AttributeError, w2)
                | (Inr (Some paths, archive), w2) \<Rightarrow>
                    (let w3 = warn_missing paths w2
                     in case paths of
                          [] \<Rightarrow> (Inl IndexError, w3)
                        | p0 # ps \<Rightarrow>
                            (let data = new_record (filter (path_exists w3) paths)
                                          (path_name p0) file_type archive
                             in case index_content paths w3 of
                                  (Inl e, w4) \<Rightarrow> (Inl e, w4)
                                | (Inr summary, w4) \<Rightarrow>
                                    (case with_summary data summary w4 of
                                       (data', w5) \<Rightarrow>
                                         (case put_record metadata next_uuid (PDict data') of
                                            Inl e \<Rightarrow> (Inl e, w5)
                                          | Inr metadata' \<Rightarrow>
                                              (Inr (),
                                               save_metadata metadata' CONFIG_FILE w5))))))))"
  by (simp add: add_to_index_def)



section \<open>A failing encoder\<close>

text \<open>
  C6 fails on the code. When the encoder is missing, or exits with a status that is not 0,
  the extractor returns \<^verbatim>\<open>None\<close> as documented, and
  \<^verbatim>\<open>add_to_index\<close> goes on: it copies the source into the archive and then calls
  \<^verbatim>\<open>paths.copy()\<close> on \<^verbatim>\<open>None\<close>, so \<^verbatim>\<open>AttributeError\<close> leaves it. No
  record is created and the store file is not written, as the claim says, but the operation
  does raise, and the archive copy stays behind.
\<close>

theorem encoder_failure_raises:
  "fst (add_to_index [''talk.mp4''] ''Video'' no_encoder_world) = Inl AttributeError
   \<and> files (snd (add_to_index [''talk.mp4''] ''Video'' no_encoder_world)) CONFIG_FILE = None
   \<and> files (snd (add_to_index [''talk.mp4''] ''Video'' no_encoder_world))
         ''lectures/Archive/talk.mp4'' = Some Undecodable
   \<and> fst (add_to_index [''talk.mp4''] ''Video'' failing_encoder_world) = Inl AttributeError
   \<and> files (snd (add_to_index [''talk.mp4''] ''Video'' failing_encoder_world)) CONFIG_FILE = None
   \<and> fst (add_to_index [''talk.mp4''] ''Audio'' failing_encoder_world) = Inl AttributeError"
  by (simp add: add_to_index_def load_metadata_def empty_store_def next_uuid_of_def
      normalize_first_def FILE_TYPES_def shutil_copy_def path_join_def path_name_def
      extract_from_video_def extract_from_audio_def subprocess_run_def ffmpeg_runs_def
      VIDEO_BASE_DIR_def CONFIG_FILE_def no_encoder_world_def failing_encoder_world_def
      quiet_world_def path_exists_def Let_def)

section \<open>Identifiers the store does not hold\<close>

text \<open>
  C9: \<^verbatim>\<open>query_lectures\<close> uses what the selector returns as it is. When the selector
  names an identifier that is not in the store, \<^verbatim>\<open>metadata["UUID"][str(UUID)]\<close> raises
  \<^verbatim>\<open>KeyError\<close>; when it returns an object without the field \<^verbatim>\<open>UUIDs\<close>,
  \<^verbatim>\<open>relevant_ids["UUIDs"]\<close> does. Neither is caught.
\<close>

theorem selector_output_raises_key_error:
  "fst (query_lectures ''what is topic A'' unknown_id_world) = Inl KeyError
   \<and> fst (query_lectures ''what is topic A'' no_field_world) = Inl KeyError"
  by (simp add: query_lectures_def load_metadata_def CONFIG_FILE_def unknown_id_world_def
      no_field_world_def indexed_world_def quiet_world_def one_record_store_def one_record_def
      dict_of_pairs_def get_structured_uuids_response_def api_calls_def
      unknown_id_reply_def no_field_reply_def answer_one_def str_int_def str_nat.simps Let_def)

section \<open>Loading the store\<close>

text \<open>
  C5, as the code has it: when the store file is absent, or is a text that does not parse as
  JSON, \<^verbatim>\<open>load_metadata\<close> returns the empty store \<^verbatim>\<open>{"UUID": {}}\<close> and raises
  nothing; it changes nothing outside the program.
\<close>

theorem load_metadata_absent_or_unparsable:
  assumes "files w filename = None \<or> files w filename = Some NotJson"
  shows "fst (load_metadata filename w) = Inr empty_store
         \<and> files (snd (load_metadata filename w)) = files w
         \<and> effects (snd (load_metadata filename w)) = effects w"
  using assms by (auto simp: load_metadata_def)

theorem load_metadata_absent_or_unparsable_witness:
  "fst (load_metadata CONFIG_FILE quiet_world) = Inr empty_store
   \<and> fst (load_metadata CONFIG_FILE garbled_store_world) = Inr empty_store"
  using load_metadata_absent_or_unparsable[of quiet_world CONFIG_FILE]
    load_metadata_absent_or_unparsable[of garbled_store_world CONFIG_FILE]
  by (simp add: quiet_world_def garbled_store_world_def)

text \<open>
  The claim as stated fails: only \<^verbatim>\<open>json.JSONDecodeError\<close> is caught. A store file
  whose bytes are not text makes \<^verbatim>\<open>json.load\<close> raise \<^verbatim>\<open>UnicodeDecodeError\<close>, and
  one that holds a JSON document other than an object, here \<^verbatim>\<open>[]\<close>, makes
  \<^verbatim>\<open>data["UUID"] = {}\<close> raise \<^verbatim>\<open>TypeError\<close>; both leave \<^verbatim>\<open>load_metadata\<close>.
\<close>

theorem load_metadata_raises:
  "fst (load_metadata CONFIG_FILE binary_store_world) = Inl UnicodeDecodeError
   \<and> fst (load_metadata CONFIG_FILE list_store_world) = Inl TypeError"
  by (simp add: load_metadata_def binary_store_world_def list_store_world_def quiet_world_def)

section \<open>Allocating an identifier, storing and reloading\<close>

lemma dict_get_set [simp]: "dict_get (dict_set d k v) k' = (if k' = k then Some v else dict_get d k')"
  by (induction d) auto

lemma dict_set_keys [simp]: "fst ` set (dict_set d k v) = insert k (fst ` set d)"
proof (induction d)
  case Nil
  then show ?case by simp
next
  case (Cons x d)
  then show ?case by (cases x) (simp add: insert_commute)
qed

lemma dict_set_distinct [simp]: "distinct (map fst d) \<Longrightarrow> distinct (map fst (dict_set d k v))"
proof (induction d)
  case Nil
  then show ?case by simp
next
  case (Cons x d)
  then show ?case by (cases x) auto
qed

lemma dict_set_new: "k \<notin> fst ` set d \<Longrightarrow> dict_set d k v = d @ [(k, v)]"
  by (induction d) auto

lemma dict_get_in: "dict_get d k = Some v \<Longrightarrow> (k, v) \<in> set d"
proof (induction d)
  case Nil
  then show ?case by simp
next
  case (Cons x d)
  then show ?case by (cases x) (simp split: if_splits)
qed

lemma dict_of_pairs_snoc: "dict_of_pairs (ps @ [(k, v)]) = dict_set (dict_of_pairs ps) k v"
  by (simp add: dict_of_pairs_def)

lemma dict_of_pairs_Nil [simp]: "dict_of_pairs [] = []"
  by (simp add: dict_of_pairs_def)

lemma dict_of_pairs_keys: "fst ` set (dict_of_pairs ps) = fst ` set ps"
proof (induction ps rule: rev_induct)
  case Nil
  then show ?case by simp
next
  case (snoc x xs)
  show ?case using snoc dict_of_pairs_snoc[of xs "fst x" "snd x"] by simp
qed

lemma dict_of_pairs_distinct: "distinct (map fst (dict_of_pairs ps))"
proof (induction ps rule: rev_induct)
  case Nil
  then show ?case by simp
next
  case (snoc x xs)
  show ?case using snoc dict_of_pairs_snoc[of xs "fst x" "snd x"] by simp
qed

lemma dict_of_pairs_id: "distinct (map fst ps) \<Longrightarrow> dict_of_pairs ps = ps"
proof (induction ps rule: rev_induct)
  case Nil
  then show ?case by simp
next
  case (snoc x xs)
  then have "dict_of_pairs xs = xs" "fst x \<notin> fst ` set xs" by auto
  then show ?case using dict_of_pairs_snoc[of xs "fst x" "snd x"] by (simp add: dict_set_new)
qed

lemma dict_of_pairs_values:
  "kv \<in> set (dict_of_pairs ps) \<Longrightarrow> kv \<in> set ps"
proof (induction ps arbitrary: kv rule: rev_induct)
  case Nil
  then show ?case by simp
next
  case (snoc x xs)
  have "\<And>d k v. kv \<in> set (dict_set d k v) \<Longrightarrow> kv = (k, v) \<or> kv \<in> set d"
    subgoal for d k v by (induction d) (auto split: if_splits)
    done
  then show ?case using snoc dict_of_pairs_snoc[of xs "fst x" "snd x"] by fastforce
qed

lemma loads_json_shaped: "json_shaped (loads j)"
proof (induction j)
  case (JObj kvs)
  have "\<And>kv. kv \<in> set (dict_of_pairs (map (\<lambda>kv. (KStr (fst kv), loads (snd kv))) kvs)) \<Longrightarrow>
            is_KStr (fst kv) \<and> json_shaped (snd kv)"
  proof -
    fix kv assume "kv \<in> set (dict_of_pairs (map (\<lambda>kv. (KStr (fst kv), loads (snd kv))) kvs))"
    then have "kv \<in> set (map (\<lambda>kv. (KStr (fst kv), loads (snd kv))) kvs)"
      by (rule dict_of_pairs_values)
    then obtain x where x: "x \<in> set kvs" "kv = (KStr (fst x), loads (snd x))" by auto
    have "snd x \<in> Basic_BNFs.snds x" by (cases x) simp
    then have "json_shaped (loads (snd x))" using JObj.IH x(1) by blast
    then show "is_KStr (fst kv) \<and> json_shaped (snd kv)" using x(2) by simp
  qed
  then show ?case by (auto simp: dict_of_pairs_distinct)
qed auto

lemma reload_json_shaped: "json_shaped v \<Longrightarrow> loads (dumps v) = v"
proof (induction v)
  case (PList xs)
  then show ?case by (simp add: map_idI)
next
  case (PDict d)
  have "map ((\<lambda>kv. (KStr (fst kv), loads (snd kv))) \<circ> (\<lambda>kv. (key_str (fst kv), dumps (snd kv)))) d = d"
  proof (rule map_idI)
    fix x assume x: "x \<in> set d"
    then have k: "is_KStr (fst x)" and j: "json_shaped (snd x)" using PDict.prems by auto
    have "snd x \<in> Basic_BNFs.snds x" by (cases x) simp
    then have "loads (dumps (snd x)) = snd x" using PDict.IH x j by blast
    moreover have "KStr (key_str (fst x)) = fst x" using k by (cases "fst x") auto
    ultimately show "((\<lambda>kv. (KStr (fst kv), loads (snd kv))) \<circ> (\<lambda>kv. (key_str (fst kv), dumps (snd kv)))) x = x"
      by (cases x) simp
  qed
  then have eq: "map (\<lambda>kv. (KStr (fst kv), loads (snd kv))) (map (\<lambda>kv. (key_str (fst kv), dumps (snd kv))) d) = d"
    by simp
  show ?case using PDict.prems by (simp only: dumps.simps loads.simps eq dict_of_pairs_id json_shaped.simps)
qed auto


lemma dict_get_map_values:
  "dict_get (map (\<lambda>kv. (fst kv, f (snd kv))) d) k = map_option f (dict_get d k)"
  by (induction d) auto

lemma dict_set_subset: "kv \<in> set (dict_set d k v) \<Longrightarrow> kv = (k, v) \<or> kv \<in> set d"
  by (induction d) (auto split: if_splits)

lemma dict_set_shaped:
  assumes "json_shaped (PDict d)" "json_shaped v"
  shows "json_shaped (PDict (dict_set d (KStr s) v))"
proof -
  have "\<And>kv. kv \<in> set (dict_set d (KStr s) v) \<Longrightarrow> is_KStr (fst kv) \<and> json_shaped (snd kv)"
    using assms dict_set_subset[of _ d "KStr s" v] by fastforce
  then show ?thesis using assms(1) by simp
qed

lemma reload_top:
  assumes "distinct (map fst d)" "\<forall>kv \<in> set d. is_KStr (fst kv)"
  shows "loads (dumps (PDict d)) = PDict (map (\<lambda>kv. (fst kv, loads (dumps (snd kv)))) d)"
proof -
  have "map ((\<lambda>kv. (KStr (fst kv), loads (snd kv))) \<circ> (\<lambda>kv. (key_str (fst kv), dumps (snd kv)))) d
        = map (\<lambda>kv. (fst kv, loads (dumps (snd kv)))) d"
  proof (rule map_cong[OF refl])
    fix x assume "x \<in> set d"
    then have "is_KStr (fst x)" using assms(2) by blast
    then have "KStr (key_str (fst x)) = fst x" by (cases "fst x") auto
    then show "((\<lambda>kv. (KStr (fst kv), loads (snd kv))) \<circ> (\<lambda>kv. (key_str (fst kv), dumps (snd kv)))) x
               = (fst x, loads (dumps (snd x)))" by simp
  qed
  then have eq: "map (\<lambda>kv. (KStr (fst kv), loads (snd kv)))
                   (map (\<lambda>kv. (key_str (fst kv), dumps (snd kv))) d)
                 = map (\<lambda>kv. (fst kv, loads (dumps (snd kv)))) d"
    by simp
  have "distinct (map fst (map (\<lambda>kv. (fst kv, loads (dumps (snd kv)))) d))"
    using assms(1) by (simp add: comp_def)
  then show ?thesis by (simp only: dumps.simps loads.simps eq dict_of_pairs_id)
qed

lemma empty_store_shaped: "json_shaped empty_store"
  by (simp add: empty_store_def)

lemma load_metadata_shaped:
  assumes "load_metadata f w = (Inr m, w1)"
  shows "json_shaped m"
proof (cases "files w f")
  case None
  then show ?thesis using assms by (auto simp: load_metadata_def empty_store_shaped)
next
  case (Some c)
  show ?thesis
  proof (cases c)
    case Undecodable
    then show ?thesis using assms Some by (simp add: load_metadata_def)
  next
    case NotJson
    then show ?thesis using assms Some by (auto simp: load_metadata_def empty_store_shaped)
  next
    case (JsonDoc j)
    have sh: "json_shaped (loads j)" by (rule loads_json_shaped)
    have "\<And>d'. setitem_str (loads j) ''UUID'' (PDict []) = Inr d' \<Longrightarrow> json_shaped d'"
    proof -
      fix d' assume a: "setitem_str (loads j) ''UUID'' (PDict []) = Inr d'"
      then obtain d where d: "loads j = PDict d" by (cases "loads j") auto
      have "json_shaped (PDict (dict_set d (KStr ''UUID'') (PDict [])))"
        using sh d by (intro dict_set_shaped) simp_all
      then show "json_shaped d'" using a d by auto
    qed
    then show ?thesis using assms Some JsonDoc sh
      by (auto simp: load_metadata_def Let_def split: sum.splits bool.splits)
  qed
qed

lemma new_record_shaped: "json_shaped (PDict (new_record paths filename file_type archive))"
  by (cases archive) (simp_all add: new_record_def Let_def)

lemma record_shaped:
  "json_shaped (PDict (fst (with_summary (new_record paths filename file_type archive) summary u)))"
proof -
  have "\<And>s. json_shaped (PDict (dict_set (new_record paths filename file_type archive)
                 (KStr ''index_summary'') (PStr s)))"
    by (rule dict_set_shaped[OF new_record_shaped]) simp
  then show ?thesis
    by (simp add: with_summary_def del: json_shaped.simps split: option.splits)
qed

lemma put_save_load:
  assumes shaped: "json_shaped metadata"
    and table: "getitem_str metadata ''UUID'' = Inr (PDict table)"
    and data: "json_shaped data"
  shows "\<exists>metadata'. put_record metadata n data = Inr metadata' \<and>
           (\<forall>w2. \<exists>store table'.
               load_metadata f (save_metadata metadata' f w2) = (Inr store, save_metadata metadata' f w2)
             \<and> getitem_str store ''UUID'' = Inr table'
             \<and> getitem_str table' (str_int n) = Inr data)"
proof -
  obtain top where top: "metadata = PDict top" using table by (cases metadata) auto
  have g: "dict_get top (KStr ''UUID'') = Some (PDict table)"
    using table top by (auto split: option.splits)
  have topk: "distinct (map fst top)" "\<forall>kv \<in> set top. is_KStr (fst kv)"
    using shaped top by auto
  have "(KStr ''UUID'', PDict table) \<in> set top" using g by (rule dict_get_in)
  moreover have "\<forall>kv \<in> set top. json_shaped (snd kv)" using shaped top by simp
  ultimately have "json_shaped (snd (KStr ''UUID'', PDict table))" by blast
  then have a: "\<forall>kv \<in> set table. is_KStr (fst kv)" by simp
  have "KInt n \<notin> fst ` set table"
  proof
    assume "KInt n \<in> fst ` set table"
    then obtain kv where "kv \<in> set table" "fst kv = KInt n" by auto
    then show False using a by fastforce
  qed
  then have tbl': "dict_set table (KInt n) data = table @ [(KInt n, data)]" by (rule dict_set_new)
  define X where "X = PDict (table @ [(KInt n, data)])"
  define top' where "top' = dict_set top (KStr ''UUID'') X"
  define store where "store = PDict (map (\<lambda>kv. (fst kv, loads (dumps (snd kv)))) top')"
  have put: "put_record metadata n data = Inr (PDict top')"
    using top g tbl' by (simp add: put_record_def top'_def X_def)
  have d': "distinct (map fst top')" using topk(1) by (simp add: top'_def)
  have k': "\<forall>kv \<in> set top'. is_KStr (fst kv)"
  proof
    fix kv assume "kv \<in> set top'"
    then have "kv = (KStr ''UUID'', X) \<or> kv \<in> set top"
      unfolding top'_def by (rule dict_set_subset)
    then show "is_KStr (fst kv)" using topk(2) by auto
  qed
  have re: "loads (dumps (PDict top')) = store"
    unfolding store_def using d' k' by (rule reload_top)
  have rx: "loads (dumps X) =
              PDict (dict_set (dict_of_pairs (map (\<lambda>kv. (KStr (fst kv), loads (snd kv)))
                        (map (\<lambda>kv. (key_str (fst kv), dumps (snd kv))) table)))
                      (KStr (str_int n)) data)"
    unfolding X_def using reload_json_shaped[OF data] by (simp add: dict_of_pairs_snoc)
  have "dict_get top' (KStr ''UUID'') = Some X" by (simp add: top'_def)
  then have "dict_get (map (\<lambda>kv. (fst kv, loads (dumps (snd kv)))) top') (KStr ''UUID'')
               = Some (loads (dumps X))"
    using dict_get_map_values[of "\<lambda>v. loads (dumps v)" top' "KStr ''UUID''"]
    by (simp del: loads.simps dumps.simps)
  then have gs: "getitem_str store ''UUID'' = Inr (loads (dumps X))"
    by (simp only: store_def getitem_str.simps option.case)
  have gt: "getitem_str (loads (dumps X)) (str_int n) = Inr data"
    unfolding rx by simp
  have "KStr ''UUID'' \<in> fst ` set top'" by (simp add: top'_def)
  then have "KStr ''UUID'' \<in> set (map fst (map (\<lambda>kv. (fst kv, loads (dumps (snd kv)))) top'))"
    by (simp add: comp_def)
  then have has: "contains_str store ''UUID'' = Inr True"
    by (simp only: store_def contains_str.simps)
  have "files (save_metadata (PDict top') f w2) f = Some (JsonDoc (dumps (PDict top')))" for w2
    by (simp add: save_metadata_def del: dumps.simps)
  then have "load_metadata f (save_metadata (PDict top') f w2)
               = (Inr store, save_metadata (PDict top') f w2)" for w2
    by (simp only: load_metadata_def option.case content.case Let_def re has sum.case bool.case
        if_True)
  then show ?thesis using put gs gt by blast
qed

lemma next_id_put_save_load_steps:
  assumes load: "load_metadata CONFIG_FILE w = (Inr metadata, w1)"
    and table: "getitem_str metadata ''UUID'' = Inr (PDict table)"
  shows "next_uuid_of metadata = Inr (int (length table) + 1) \<and>
         (\<exists>metadata'.
            put_record metadata (int (length table) + 1)
              (PDict (fst (with_summary (new_record paths filename file_type archive) summary u)))
              = Inr metadata' \<and>
            (\<forall>w2. \<exists>store table'.
                load_metadata CONFIG_FILE (save_metadata metadata' CONFIG_FILE w2)
                  = (Inr store, save_metadata metadata' CONFIG_FILE w2)
              \<and> getitem_str store ''UUID'' = Inr table'
              \<and> getitem_str table' (str_int (int (length table) + 1))
                  = Inr (PDict (fst (with_summary (new_record paths filename file_type archive)
                                       summary u)))))"
  using put_save_load[OF load_metadata_shaped[OF load] table record_shaped] table
  by (simp add: next_uuid_of_def)


lemma str_int_2: "str_int 2 = ''2''"
  by (simp add: str_int_def str_nat.simps)

lemma add_to_index_success:
  assumes "add_to_index (first # others) file_type w = (Inr (), w')"
  shows "\<exists>metadata w1 n paths filename archive summary u metadata' w5.
           load_metadata CONFIG_FILE w = (Inr metadata, w1)
         \<and> next_uuid_of metadata = Inr n
         \<and> put_record metadata n
              (PDict (fst (with_summary (new_record paths filename file_type archive) summary u)))
              = Inr metadata'
         \<and> w' = save_metadata metadata' CONFIG_FILE w5"
  using assms unfolding add_to_index_Cons
  by (auto simp: Let_def split: prod.splits sum.splits option.splits list.splits)
    (metis fst_conv)+


lemma new_record_type:
  "getitem_str (PDict (fst (with_summary (new_record paths filename file_type archive) summary u)))
     ''Type'' = Inr (PStr file_type)"
  by (simp add: with_summary_def new_record_def Let_def split: option.splits)

text \<open>
  C1: for a store that holds \<open>N\<close> records (the dictionary \<open>table\<close> under \<^verbatim>\<open>UUID\<close> of
  what \<^verbatim>\<open>load_metadata\<close> returns), the next identifier is \<open>N + 1\<close>; a record as
  \<^verbatim>\<open>add_to_index\<close> builds it can be put under that identifier, and once the store is
  saved, in whatever state, loading it gives a store that holds exactly that record under the
  decimal string of \<open>N + 1\<close>, the key \<^verbatim>\<open>query_lectures\<close> looks records up by. So
  whenever \<^verbatim>\<open>add_to_index\<close> returns normally, the store it leaves on disk loads again
  and holds under \<open>N + 1\<close> a record of the type that was added.
\<close>

theorem next_id_put_save_load:
  assumes load: "load_metadata CONFIG_FILE w = (Inr metadata, w1)"
    and table: "getitem_str metadata ''UUID'' = Inr (PDict table)"
  shows "next_uuid_of metadata = Inr (int (length table) + 1)
       \<and> (\<exists>metadata'.
            put_record metadata (int (length table) + 1)
              (PDict (fst (with_summary (new_record paths filename file_type archive) summary u)))
              = Inr metadata' \<and>
            (\<forall>w2. \<exists>store table'.
                load_metadata CONFIG_FILE (save_metadata metadata' CONFIG_FILE w2)
                  = (Inr store, save_metadata metadata' CONFIG_FILE w2)
              \<and> getitem_str store ''UUID'' = Inr table'
              \<and> getitem_str table' (str_int (int (length table) + 1))
                  = Inr (PDict (fst (with_summary (new_record paths filename file_type archive)
                                       summary u)))))
       \<and> (\<forall>first others kind w'.
            add_to_index (first # others) kind w = (Inr (), w') \<longrightarrow>
            (\<exists>store table' record.
                load_metadata CONFIG_FILE w' = (Inr store, w')
              \<and> getitem_str store ''UUID'' = Inr table'
              \<and> getitem_str table' (str_int (int (length table) + 1)) = Inr record
              \<and> getitem_str record ''Type'' = Inr (PStr kind)))"
proof (intro conjI allI impI)
  show "next_uuid_of metadata = Inr (int (length table) + 1)"
    using next_id_put_save_load_steps[OF load table] by blast
  show "\<exists>metadata'.
            put_record metadata (int (length table) + 1)
              (PDict (fst (with_summary (new_record paths filename file_type archive) summary u)))
              = Inr metadata' \<and>
            (\<forall>w2. \<exists>store table'.
                load_metadata CONFIG_FILE (save_metadata metadata' CONFIG_FILE w2)
                  = (Inr store, save_metadata metadata' CONFIG_FILE w2)
              \<and> getitem_str store ''UUID'' = Inr table'
              \<and> getitem_str table' (str_int (int (length table) + 1))
                  = Inr (PDict (fst (with_summary (new_record paths filename file_type archive)
                                       summary u))))"
    using next_id_put_save_load_steps[OF load table] by blast
next
  fix first others kind w'
  assume add: "add_to_index (first # others) kind w = (Inr (), w')"
  from add_to_index_success[OF add] obtain m0 v1 n ps fn ar sm v m' w5 where
    s: "load_metadata CONFIG_FILE w = (Inr m0, v1)" "next_uuid_of m0 = Inr n"
       "put_record m0 n (PDict (fst (with_summary (new_record ps fn kind ar) sm v))) = Inr m'"
       "w' = save_metadata m' CONFIG_FILE w5"
    by blast
  have m0: "m0 = metadata" using s(1) load by simp
  have n: "n = int (length table) + 1"
    using s(2) m0 next_id_put_save_load_steps[OF load table] by simp
  from next_id_put_save_load_steps[OF load table, of ps fn kind ar sm v] obtain m2 where
    p: "put_record metadata (int (length table) + 1)
          (PDict (fst (with_summary (new_record ps fn kind ar) sm v))) = Inr m2"
    and r: "\<forall>w2. \<exists>store table'.
                load_metadata CONFIG_FILE (save_metadata m2 CONFIG_FILE w2)
                  = (Inr store, save_metadata m2 CONFIG_FILE w2)
              \<and> getitem_str store ''UUID'' = Inr table'
              \<and> getitem_str table' (str_int (int (length table) + 1))
                  = Inr (PDict (fst (with_summary (new_record ps fn kind ar) sm v)))"
    by blast
  have "m2 = m'" using p s(3) m0 n by simp
  then show "\<exists>store table' record.
                load_metadata CONFIG_FILE w' = (Inr store, w')
              \<and> getitem_str store ''UUID'' = Inr table'
              \<and> getitem_str table' (str_int (int (length table) + 1)) = Inr record
              \<and> getitem_str record ''Type'' = Inr (PStr kind)"
    using r[rule_format, of w5] s(4) new_record_type[of ps fn kind ar sm v] by blast
qed

lemma add_slides: "fst (add_to_index [''slides.pdf''] ''PDF'' indexed_world) = Inr ()"
  by (simp add: add_to_index_def load_metadata_def next_uuid_of_def
      normalize_first_def FILE_TYPES_def shutil_copy_def path_join_def path_name_def
      VIDEO_BASE_DIR_def CONFIG_FILE_def index_content_def files_upload_def
      safe_generate_content_def MAX_API_RETRIES_def safe_generate_text indexed_world_def
      quiet_world_def one_record_store_def one_record_def dict_of_pairs_def path_exists_def
      upload_calls_def api_calls_def new_record_def with_summary_def put_record_def Let_def)

theorem next_id_put_save_load_witness:
  "next_uuid_of (loads one_record_store) = Inr 2
   \<and> (\<exists>metadata' store table'.
         put_record (loads one_record_store) 2
           (PDict (fst (with_summary (new_record [''lectures/slides.pdf''] ''slides.pdf'' ''PDF'' None)
                          (Some ''topic B'') indexed_world))) = Inr metadata'
       \<and> load_metadata CONFIG_FILE (save_metadata metadata' CONFIG_FILE indexed_world)
           = (Inr store, save_metadata metadata' CONFIG_FILE indexed_world)
       \<and> getitem_str store ''UUID'' = Inr table'
       \<and> getitem_str table' ''2''
           = Inr (PDict [(KStr ''Path'', PList [PStr ''lectures/slides.pdf'']),
                         (KStr ''Filename'', PStr ''slides.pdf''), (KStr ''Type'', PStr ''PDF''),
                         (KStr ''Archive'', PStr []), (KStr ''index_summary'', PStr ''topic B'')]))
   \<and> fst (add_to_index [''slides.pdf''] ''PDF'' indexed_world) = Inr ()
   \<and> (\<exists>store table' record.
         load_metadata CONFIG_FILE (snd (add_to_index [''slides.pdf''] ''PDF'' indexed_world))
           = (Inr store, snd (add_to_index [''slides.pdf''] ''PDF'' indexed_world))
       \<and> getitem_str store ''UUID'' = Inr table'
       \<and> getitem_str table' ''2'' = Inr record
       \<and> getitem_str record ''Type'' = Inr (PStr ''PDF''))"
proof -
  have l: "load_metadata CONFIG_FILE indexed_world = (Inr (loads one_record_store), indexed_world)"
    by (simp add: load_metadata_def indexed_world_def quiet_world_def one_record_store_def
        dict_of_pairs_def CONFIG_FILE_def)
  have t: "getitem_str (loads one_record_store) ''UUID'' = Inr (PDict [(KStr ''1'', loads one_record)])"
    by (simp add: one_record_store_def dict_of_pairs_def)
  have r: "PDict (fst (with_summary (new_record [''lectures/slides.pdf''] ''slides.pdf'' ''PDF'' None)
                          (Some ''topic B'') indexed_world))
           = PDict [(KStr ''Path'', PList [PStr ''lectures/slides.pdf'']),
                         (KStr ''Filename'', PStr ''slides.pdf''), (KStr ''Type'', PStr ''PDF''),
                         (KStr ''Archive'', PStr []), (KStr ''index_summary'', PStr ''topic B'')]"
    by (simp add: with_summary_def new_record_def)
  have a: "add_to_index [''slides.pdf''] ''PDF'' indexed_world
             = (Inr (), snd (add_to_index [''slides.pdf''] ''PDF'' indexed_world))"
    using add_slides by (cases "add_to_index [''slides.pdf''] ''PDF'' indexed_world") simp
  note inst = next_id_put_save_load[OF l t, of "[''lectures/slides.pdf'']" "''slides.pdf''" "''PDF''"
        None "Some ''topic B''" indexed_world]
  have one: "next_uuid_of (loads one_record_store) = Inr 2" using inst by simp
  have two: "\<exists>metadata' store table'.
         put_record (loads one_record_store) 2
           (PDict (fst (with_summary (new_record [''lectures/slides.pdf''] ''slides.pdf'' ''PDF'' None)
                          (Some ''topic B'') indexed_world))) = Inr metadata'
       \<and> load_metadata CONFIG_FILE (save_metadata metadata' CONFIG_FILE indexed_world)
           = (Inr store, save_metadata metadata' CONFIG_FILE indexed_world)
       \<and> getitem_str store ''UUID'' = Inr table'
       \<and> getitem_str table' ''2''
           = Inr (PDict [(KStr ''Path'', PList [PStr ''lectures/slides.pdf'']),
                         (KStr ''Filename'', PStr ''slides.pdf''), (KStr ''Type'', PStr ''PDF''),
                         (KStr ''Archive'', PStr []), (KStr ''index_summary'', PStr ''topic B'')])"
    using inst unfolding r by (simp add: str_int_2) blast
  have three: "\<exists>store table' record.
         load_metadata CONFIG_FILE (snd (add_to_index [''slides.pdf''] ''PDF'' indexed_world))
           = (Inr store, snd (add_to_index [''slides.pdf''] ''PDF'' indexed_world))
       \<and> getitem_str store ''UUID'' = Inr table'
       \<and> getitem_str table' ''2'' = Inr record
       \<and> getitem_str record ''Type'' = Inr (PStr ''PDF'')"
    using inst a by (simp add: str_int_2)
  show ?thesis using one two three add_slides by blast
qed

section \<open>The first file of several\<close>


lemma same_outside_sym: "same_outside w v \<Longrightarrow> same_outside v w"
  by (simp add: same_outside_def)

lemma same_outside_trans: "same_outside w v \<Longrightarrow> same_outside v u \<Longrightarrow> same_outside w u"
  by (simp add: same_outside_def)


















lemma emit_run_counts [simp]:
  "ffmpeg_runs (emit (Run c) w) = Suc (ffmpeg_runs w)"
  "upload_calls (emit (Run c) w) = upload_calls w"
  by (simp_all add: ffmpeg_runs_def upload_calls_def)




















end
